theory Spec2Isabelle
  imports Main "HOL-Library.Word" "HOL-Library.Signed_Division" "HOL-Library.Sublist"
begin

section \<open>The session layer of the RPC client (api/session.go)\<close>

text \<open>
  The Go file defines \<open>Session\<close> and its methods. Everything the methods call outside
  the file (the protobuf codec, the signer, the transport, the credential provider, the
  random source, the clock, the status classifier and the cell geometry) is a field of
  the record \<open>ext\<close> below; what the methods do to the outside (exchanges handed to the
  transport, payloads pushed to the feed, logins, readings of the clock and of the random
  source) is recorded in the record \<open>world\<close>, which every method takes and returns.
  Debug logging (\<open>debugProtoMessage\<close>) only prints and is left out.
\<close>

subsection \<open>Machine types\<close>

type_synonym byte = "8 word"
type_synonym bytes = "byte list"
type_synonym uint32 = "32 word"
type_synonym int32 = "32 word"
type_synonym uint64 = "64 word"
type_synonym int64 = "64 word"

text \<open>A \<open>float64\<close> is only copied by this file, never computed with: it is its bit pattern.\<close>

type_synonym float64 = "64 word"

text \<open>
  A \<open>time.Time\<close> is the number of nanoseconds since the Unix epoch. \<open>UnixNano\<close> is that
  number as an \<open>int64\<close>, \<open>Unix\<close> the whole seconds (rounded down) as an \<open>int64\<close>.
\<close>

type_synonym Time = int

definition UnixNano :: "Time \<Rightarrow> int64" where
  "UnixNano t = word_of_int t"

definition Unix :: "Time \<Rightarrow> int64" where
  "Unix t = word_of_int (t div 1000000000)"

text \<open>Go's \<open>/\<close> on \<open>int64\<close> truncates towards zero.\<close>

definition int64_div :: "int64 \<Rightarrow> int64 \<Rightarrow> int64" where
  "int64_div a b = word_of_int (sint a sdiv sint b)"

definition Millisecond :: int64 where
  "Millisecond = 1000000"

subsection \<open>Errors and panics\<close>

text \<open>
  \<open>ErrFormatting\<close>, \<open>ErrNoURL\<close>, \<open>ErrProxyDead\<close> and \<open>ErrRequest\<close> are the package's error
  values, \<open>ErrResponse\<close> is its struct wrapping a decode failure, \<open>ErrorString\<close> is a value
  of \<open>errors.New\<close>, and \<open>Foreign\<close> is an error made by a collaborator (the codec, the
  provider, the transport, the status classifier).
\<close>

datatype error =
    ErrFormatting
  | ErrNoURL
  | ErrProxyDead
  | ErrRequest
  | ErrResponse error
  | ErrorString string
  | Foreign string

datatype panic = NilDereference | IndexOutOfRange

text \<open>A Go method returning \<open>(*T, error)\<close> returns a pair, unless it panics.\<close>

type_synonym 'a ret = "panic + ('a option \<times> error option)"

subsection \<open>Messages\<close>

record Location =
  Lat :: float64
  Lon :: float64
  Alt :: float64
  Accuracy :: float64

record AuthTicket =
  Start :: bytes
  ExpireTimestampMs :: uint64
  End :: bytes

datatype RequestType =
    GET_PLAYER
  | GET_HATCHED_EGGS
  | GET_INVENTORY
  | CHECK_AWARDED_BADGES
  | DOWNLOAD_SETTINGS
  | GET_MAP_OBJECTS
  | CHECK_CHALLENGE
  | VERIFY_CHALLENGE
  | ENCOUNTER
  | OTHER_REQUEST_TYPE nat

record Request =
  RequestType :: RequestType
  RequestMessage :: bytes

datatype PlatformRequestType =
    SEND_ENCRYPTED_SIGNATURE
  | OTHER_PLATFORM_REQUEST_TYPE nat

record PlatformRequest =
  Type :: PlatformRequestType
  PlatformRequestMessage :: bytes

record AuthInfo_JWT =
  Contents :: string
  Unknown2 :: int32

record AuthInfo =
  Provider :: string
  Token :: AuthInfo_JWT

record RequestEnvelope =
  StatusCode :: int32
  RequestId :: uint64
  Requests :: "Request list"
  PlatformRequests :: "PlatformRequest list"
  Latitude :: float64
  Longitude :: float64
  EnvelopeAccuracy :: float64
  AuthInfo :: "AuthInfo option"
  AuthTicket :: "AuthTicket option"
  MsSinceLastLocationfix :: int64

record ResponseEnvelope =
  ResponseStatusCode :: int32
  ApiUrl :: string
  ResponseAuthTicket :: "AuthTicket option"
  Returns :: "bytes list"

record Signature_DeviceInfo =
  DeviceId :: string
  DeviceBrand :: string
  DeviceModel :: string
  DeviceModelBoot :: string
  HardwareManufacturer :: string
  HardwareModel :: string
  FirmwareBrand :: string
  FirmwareType :: string

record Signature =
  RequestHash :: "uint64 list"
  LocationHash1 :: uint64
  LocationHash2 :: uint64
  Stationary :: bool
  DeviceInfo :: Signature_DeviceInfo
  SessionHash :: bytes
  Timestamp :: uint64
  TimestampSinceStart :: uint64
  Unknown25 :: uint64

record CheckChallengeResponse =
  ShowChallenge :: bool
  ChallengeUrl :: string

text \<open>
  The other response messages are only decoded, pushed and returned: their fields are not
  read here, and each is kept as the content the decoder produced.
\<close>

datatype GetMapObjectsResponse = GetMapObjectsResponse bytes
datatype VerifyChallengeResponse = VerifyChallengeResponse bytes
datatype GetPlayerResponse = GetPlayerResponse bytes
datatype EncounterResponse = EncounterResponse bytes
datatype GetInventoryResponse = GetInventoryResponse bytes

text \<open>
  What \<open>proto.Marshal\<close> is called on in this file. The arguments are the fields the
  file sets, in this order: \<open>GetMapObjectsMessage\<close> has \<open>CellId\<close>, \<open>SinceTimestampMs\<close>,
  \<open>Longitude\<close>, \<open>Latitude\<close>; \<open>EncounterMessage\<close> has \<open>EncounterId\<close>, \<open>SpawnPointId\<close>,
  \<open>PlayerLatitude\<close>, \<open>PlayerLongitude\<close>; \<open>DownloadSettingsMessage\<close> has \<open>Hash\<close>,
  \<open>GetInventoryMessage\<close> has \<open>LastTimestampMs\<close>, \<open>VerifyChallengeMessage\<close> has \<open>Token\<close>,
  \<open>SendEncryptedSignatureRequest\<close> has \<open>EncryptedSignature\<close>.
\<close>

datatype message =
    DownloadSettingsMessage string
  | GetMapObjectsMessage "uint64 list" "int64 list" float64 float64
  | GetInventoryMessage int64
  | VerifyChallengeMessage string
  | EncounterMessage uint64 string float64 float64
  | SendEncryptedSignatureRequest bytes
  | AuthTicketMessage "AuthTicket option"
  | RequestMessageOf Request
  | SignatureMessage Signature

text \<open>What \<open>feed.Push\<close> is called on in this file.\<close>

datatype payload =
    PushedMapObjects GetMapObjectsResponse
  | PushedCheckChallenge CheckChallengeResponse
  | PushedVerifyChallenge VerifyChallengeResponse
  | PushedPlayer GetPlayerResponse
  | PushedEncounter EncounterResponse
  | PushedInventory GetInventoryResponse

subsection \<open>The collaborators and the world\<close>

text \<open>
  One exchange handed to \<open>rpc.Request\<close>: the URL, the envelope and the proxy selector it
  was called with, and the pair it returned.
\<close>

record exchange =
  ex_url :: string
  ex_envelope :: RequestEnvelope
  ex_proxy :: int64
  ex_response :: "ResponseEnvelope option"
  ex_err :: "error option"

record world =
  exchanges :: "exchange list"
  pushed :: "payload list"
  logins :: nat
  ticks :: nat
  rands :: nat

text \<open>
  The collaborators. A call that may answer differently each time takes the number of
  earlier calls of its kind: the \<open>n\<close>-th exchange, login, clock reading, random read.
  \<open>proto.Marshal\<close> returns bytes and an error, \<open>proto.Unmarshal\<close> fills a message and
  returns an error, \<open>rand.Read\<close> overwrites the buffer it is given and returns an error.
\<close>

record ext =
  proto_Marshal :: "message \<Rightarrow> bytes \<times> error option"
  Unmarshal_GetMapObjects :: "bytes \<Rightarrow> GetMapObjectsResponse \<times> error option"
  Unmarshal_CheckChallenge :: "bytes \<Rightarrow> CheckChallengeResponse \<times> error option"
  Unmarshal_VerifyChallenge :: "bytes \<Rightarrow> VerifyChallengeResponse \<times> error option"
  Unmarshal_GetPlayer :: "bytes \<Rightarrow> GetPlayerResponse \<times> error option"
  Unmarshal_Encounter :: "bytes \<Rightarrow> EncounterResponse \<times> error option"
  Unmarshal_GetInventory :: "bytes \<Rightarrow> GetInventoryResponse \<times> error option"
  HashRequest :: "bytes \<Rightarrow> bytes \<Rightarrow> uint64"
  HashLocation1 :: "bytes \<Rightarrow> float64 \<Rightarrow> float64 \<Rightarrow> float64 \<Rightarrow> uint64"
  HashLocation2 :: "float64 \<Rightarrow> float64 \<Rightarrow> float64 \<Rightarrow> uint64"
  Hash25 :: uint64
  Encrypt :: "bytes \<Rightarrow> uint32 \<Rightarrow> bytes"
  rpc_Request :: "nat \<Rightarrow> string \<Rightarrow> RequestEnvelope \<Rightarrow> int64 \<Rightarrow> ResponseEnvelope option \<times> error option"
  Login :: "nat \<Rightarrow> error option"
  GetProviderString :: "nat \<Rightarrow> string"
  GetAccessToken :: "nat \<Rightarrow> string"
  rand_Read :: "nat \<Rightarrow> bytes \<Rightarrow> bytes \<times> error option"
  clock :: "nat \<Rightarrow> Time"
  GetErrorFromStatus :: "int32 \<Rightarrow> error option"
  GetCellIDs :: "Location \<Rightarrow> uint64 list"

definition time_Now :: "ext \<Rightarrow> world \<Rightarrow> Time \<times> world" where
  "time_Now x w = (clock x (ticks w), w\<lparr>ticks := Suc (ticks w)\<rparr>)"

definition feed_Push :: "payload \<Rightarrow> world \<Rightarrow> world" where
  "feed_Push p w = w\<lparr>pushed := pushed w @ [p]\<rparr>"

text \<open>The exchanges made between an earlier world and a later one.\<close>

definition sent :: "world \<Rightarrow> world \<Rightarrow> exchange list" where
  "sent w w' = drop (length (exchanges w)) (exchanges w')"

subsection \<open>The session\<close>

definition defaultURL :: string where
  "defaultURL = ''https://pgorelease.nianticlabs.com/plfe/rpc''"

definition downloadSettingsHash :: string where
  "downloadSettingsHash = ''05daf51635c82611d1aac95c0b051d3ec088a930''"

text \<open>
  The fields of the Go struct that hold state; \<open>feed\<close>, \<open>signer\<close>, \<open>rpc\<close> and \<open>provider\<close>
  are the collaborators above, \<open>debug\<close> and \<open>debugger\<close> belong to the logging. The
  pointers \<open>location\<close> and \<open>ticket\<close> may be nil.
\<close>

record Session =
  location :: "Location option"
  RPCID :: uint64
  url :: string
  hasTicket :: bool
  ticket :: "AuthTicket option"
  started :: Time
  hash :: bytes

definition getTimestamp :: "Time \<Rightarrow> uint64" where
  "getTimestamp t = int64_div (UnixNano t) Millisecond"

definition NewSession :: "ext \<Rightarrow> Location option \<Rightarrow> world \<Rightarrow> Session \<times> world" where
  "NewSession x loc w =
     (let (now, w1) = time_Now x w
      in (\<lparr>location = loc, RPCID = 0, url = [], hasTicket = False, ticket = None,
           started = now, hash = replicate 32 0\<rparr>, w1))"

definition IsExpired :: "ext \<Rightarrow> Session \<Rightarrow> world \<Rightarrow> bool \<times> world" where
  "IsExpired x s w =
     (if \<not> hasTicket s \<or> ticket s = None then (True, w)
      else let (now, w1) = time_Now x w
           in (ExpireTimestampMs (the (ticket s)) < getTimestamp now, w1))"

definition setTicket :: "AuthTicket option \<Rightarrow> Session \<Rightarrow> Session" where
  "setTicket t s = s\<lparr>hasTicket := True, ticket := t\<rparr>"

definition setURL :: "string \<Rightarrow> Session \<Rightarrow> Session" where
  "setURL urlToken s = s\<lparr>url := ''https://'' @ urlToken @ ''/rpc''\<rparr>"

definition getURL :: "Session \<Rightarrow> string" where
  "getURL s = (if url s \<noteq> [] then url s else defaultURL)"


text \<open>Go's \<open>xs[i]\<close> on a slice panics when \<open>i\<close> is out of range.\<close>

definition index :: "'a list \<Rightarrow> nat \<Rightarrow> panic + 'a" where
  "index xs i = (if i < length xs then Inr (xs ! i) else Inl IndexOutOfRange)"

text \<open>\<open>strings.Contains s substr\<close>.\<close>

definition Contains :: "string \<Rightarrow> string \<Rightarrow> bool" where
  "Contains s substr = sublist substr s"

subsection \<open>Call\<close>

text \<open>
  The loop of \<open>Call\<close> over the requests: each is serialised and hashed under the
  serialised ticket, in order; the first serialisation failure ends the call.
\<close>

fun hashRequests :: "ext \<Rightarrow> bytes \<Rightarrow> Request list \<Rightarrow> error + uint64 list" where
  "hashRequests x tk [] = Inr []"
| "hashRequests x tk (request # rest) =
     (case proto_Marshal x (RequestMessageOf request) of
        (req, Some err) \<Rightarrow> Inl err
      | (req, None) \<Rightarrow>
          (case hashRequests x tk rest of
             Inl err \<Rightarrow> Inl err
           | Inr hs \<Rightarrow> Inr (HashRequest x tk req # hs)))"

definition deviceInfo :: Signature_DeviceInfo where
  "deviceInfo =
     \<lparr>DeviceId = ''<device_id>'', DeviceBrand = ''Apple'', DeviceModel = ''iPhone'',
      DeviceModelBoot = ''Iphone7,2'', HardwareManufacturer = ''Apple'',
      HardwareModel = ''N66AP'', FirmwareBrand = ''iPhone OS'', FirmwareType = ''9.3.3''\<rparr>"

text \<open>
  The second \<open>if s.hasTicket\<close> block of \<open>Call\<close>, after its clock reading: the platform
  requests it attaches, or the error it returns early.
\<close>

definition signRequests ::
  "ext \<Rightarrow> Request list \<Rightarrow> Session \<Rightarrow> Location \<Rightarrow> Time \<Rightarrow> error + PlatformRequest list" where
  "signRequests x requests s loc now =
     (let t = getTimestamp now
      in case proto_Marshal x (AuthTicketMessage (ticket s)) of
           (tk, Some err) \<Rightarrow> Inl err
         | (tk, None) \<Rightarrow>
             (case hashRequests x tk requests of
                Inl err \<Rightarrow> Inl err
              | Inr requestHash \<Rightarrow>
                  (let signature =
                         \<lparr>RequestHash = requestHash,
                          LocationHash1 = HashLocation1 x tk (Lat loc) (Lon loc) (Alt loc),
                          LocationHash2 = HashLocation2 x (Lat loc) (Lon loc) (Alt loc),
                          Stationary = True,
                          DeviceInfo = deviceInfo,
                          SessionHash = hash s,
                          Timestamp = t,
                          TimestampSinceStart = t - getTimestamp (started s),
                          Unknown25 = Hash25 x\<rparr>
                   in case proto_Marshal x (SignatureMessage signature) of
                        (signatureProto, Some err) \<Rightarrow> Inl ErrFormatting
                      | (signatureProto, None) \<Rightarrow>
                          (let encryptedSignature =
                                 Encrypt x signatureProto (ucast (TimestampSinceStart signature))
                           in case proto_Marshal x (SendEncryptedSignatureRequest encryptedSignature) of
                                (requestMessage, Some err) \<Rightarrow> Inl ErrFormatting
                              | (requestMessage, None) \<Rightarrow>
                                  Inr [\<lparr>Type = SEND_ENCRYPTED_SIGNATURE,
                                        PlatformRequestMessage = requestMessage\<rparr>]))))"

text \<open>\<open>s.rpc.Request\<close>: the exchange is made and recorded.\<close>

definition rpc_dispatch ::
  "ext \<Rightarrow> string \<Rightarrow> RequestEnvelope \<Rightarrow> int64 \<Rightarrow> world
     \<Rightarrow> (ResponseEnvelope option \<times> error option) \<times> world" where
  "rpc_dispatch x u e proxyId w =
     (let (response, err) = rpc_Request x (length (exchanges w)) u e proxyId
      in ((response, err),
          w\<lparr>exchanges := exchanges w @
               [\<lparr>ex_url = u, ex_envelope = e, ex_proxy = proxyId,
                 ex_response = response, ex_err = err\<rparr>]\<rparr>))"

definition Call ::
  "ext \<Rightarrow> Request list \<Rightarrow> int64 \<Rightarrow> Session \<Rightarrow> world
     \<Rightarrow> ResponseEnvelope ret \<times> Session \<times> world" where
  "Call x requests proxyId s w =
     (case location s of
        None \<Rightarrow> (Inl NilDereference, s, w)
      | Some loc \<Rightarrow>
          (let requestEnvelope =
                 \<lparr>StatusCode = 2, RequestId = 8145806132888207460, Requests = requests,
                  PlatformRequests = [], Latitude = Lat loc, Longitude = Lon loc,
                  EnvelopeAccuracy = Accuracy loc, AuthInfo = None, AuthTicket = None,
                  MsSinceLastLocationfix = 989\<rparr>;
               requestEnvelope =
                 (if hasTicket s then requestEnvelope\<lparr>AuthTicket := ticket s\<rparr>
                  else requestEnvelope
                         \<lparr>AuthInfo := Some
                            \<lparr>Provider = GetProviderString x (logins w),
                             Token = \<lparr>Contents = GetAccessToken x (logins w), Unknown2 = 59\<rparr>\<rparr>\<rparr>)
           in if hasTicket s then
                (let (now, w1) = time_Now x w
                 in case signRequests x requests s loc now of
                      Inl err \<Rightarrow> (Inr (None, Some err), s, w1)
                    | Inr platformRequests \<Rightarrow>
                        (let (r, w2) =
                               rpc_dispatch x (getURL s)
                                 (requestEnvelope\<lparr>PlatformRequests := platformRequests\<rparr>)
                                 proxyId w1
                         in (Inr r, s, w2)))
              else (let (r, w2) = rpc_dispatch x (getURL s) requestEnvelope proxyId w
                    in (Inr r, s, w2))))"

subsection \<open>MoveTo and Init\<close>

definition MoveTo :: "Location option \<Rightarrow> Session \<Rightarrow> world \<Rightarrow> Session \<times> world" where
  "MoveTo loc s w = (s\<lparr>location := loc\<rparr>, w)"

definition Init ::
  "ext \<Rightarrow> int64 \<Rightarrow> Session \<Rightarrow> world \<Rightarrow> (panic + error option) \<times> Session \<times> world" where
  "Init x proxyId s w =
     (let w1 = w\<lparr>logins := Suc (logins w)\<rparr>
      in case Login x (logins w) of
           Some err \<Rightarrow> (Inr (Some err), s, w1)
         | None \<Rightarrow>
             (let (buf, rerr) = rand_Read x (rands w1) (hash s);
                  s1 = s\<lparr>hash := buf\<rparr>;
                  w2 = w1\<lparr>rands := Suc (rands w1)\<rparr>
              in case rerr of
                   Some err \<Rightarrow> (Inr (Some ErrFormatting), s1, w2)
                 | None \<Rightarrow>
                     (let settingsMessage =
                            fst (proto_Marshal x (DownloadSettingsMessage downloadSettingsHash));
                          requests =
                            [\<lparr>RequestType = GET_PLAYER, RequestMessage = []\<rparr>,
                             \<lparr>RequestType = GET_HATCHED_EGGS, RequestMessage = []\<rparr>,
                             \<lparr>RequestType = GET_INVENTORY, RequestMessage = []\<rparr>,
                             \<lparr>RequestType = CHECK_AWARDED_BADGES, RequestMessage = []\<rparr>,
                             \<lparr>RequestType = DOWNLOAD_SETTINGS, RequestMessage = settingsMessage\<rparr>]
                      in case Call x requests proxyId s1 w2 of
                           (Inl p, s2, w3) \<Rightarrow> (Inl p, s2, w3)
                         | (Inr (response, Some err), s2, w3) \<Rightarrow> (Inr (Some err), s2, w3)
                         | (Inr (None, None), s2, w3) \<Rightarrow> (Inl NilDereference, s2, w3)
                         | (Inr (Some response, None), s2, w3) \<Rightarrow>
                             (if ApiUrl response = [] then (Inr (Some ErrNoURL), s2, w3)
                              else (Inr None,
                                    setTicket (ResponseAuthTicket response)
                                      (setURL (ApiUrl response) s2),
                                    w3)))))"


subsection \<open>The operations\<close>

text \<open>
  \<open>Announce\<close>. \<open>GetCellIDs\<close> computes the cells from the fields of its receiver, so a
  nil \<open>location\<close> panics there. The errors of the three \<open>proto.Marshal\<close> calls and of the
  second \<open>proto.Unmarshal\<close> are dropped by the code.
\<close>

definition Announce ::
  "ext \<Rightarrow> int64 \<Rightarrow> Session \<Rightarrow> world \<Rightarrow> GetMapObjectsResponse ret \<times> Session \<times> world" where
  "Announce x proxyId s w =
     (case location s of
        None \<Rightarrow> (Inl NilDereference, s, w)
      | Some loc \<Rightarrow>
          (let cellIDs = GetCellIDs x loc;
               (now, w0) = time_Now x w;
               lastTimestamp = Unix now * 1000;
               settingsMessage =
                 fst (proto_Marshal x (DownloadSettingsMessage downloadSettingsHash));
               getMapObjectsMessage =
                 fst (proto_Marshal x
                        (GetMapObjectsMessage cellIDs (replicate (length cellIDs) 0)
                           (Lon loc) (Lat loc)));
               getInventoryMessage = fst (proto_Marshal x (GetInventoryMessage lastTimestamp));
               requests =
                 [\<lparr>RequestType = GET_PLAYER, RequestMessage = []\<rparr>,
                  \<lparr>RequestType = GET_HATCHED_EGGS, RequestMessage = []\<rparr>,
                  \<lparr>RequestType = GET_INVENTORY, RequestMessage = getInventoryMessage\<rparr>,
                  \<lparr>RequestType = CHECK_AWARDED_BADGES, RequestMessage = []\<rparr>,
                  \<lparr>RequestType = DOWNLOAD_SETTINGS, RequestMessage = settingsMessage\<rparr>,
                  \<lparr>RequestType = GET_MAP_OBJECTS, RequestMessage = getMapObjectsMessage\<rparr>,
                  \<lparr>RequestType = CHECK_CHALLENGE, RequestMessage = []\<rparr>]
           in case Call x requests proxyId s w0 of
                (Inl p, s1, w1) \<Rightarrow> (Inl p, s1, w1)
              | (Inr (response, Some err), s1, w1) \<Rightarrow>
                  (if err = ErrProxyDead then (Inr (None, Some err), s1, w1)
                   else (Inr (None, Some ErrRequest), s1, w1))
              | (Inr (None, None), s1, w1) \<Rightarrow> (Inl NilDereference, s1, w1)
              | (Inr (Some response, None), s1, w1) \<Rightarrow>
                  (if length (Returns response) < 5
                   then (Inr (None, Some (ErrorString ''Empty response'')), s1, w1)
                   else case index (Returns response) 5 of
                          Inl p \<Rightarrow> (Inl p, s1, w1)
                        | Inr raw5 \<Rightarrow>
                            (case Unmarshal_GetMapObjects x raw5 of
                               (mapObjects, Some err) \<Rightarrow>
                                 (Inr (None, Some (ErrResponse err)), s1, w1)
                             | (mapObjects, None) \<Rightarrow>
                                 (let w2 = feed_Push (PushedMapObjects mapObjects) w1
                                  in case index (Returns response) 0 of
                                       Inl p \<Rightarrow> (Inl p, s1, w2)
                                     | Inr raw0 \<Rightarrow>
                                         (let challenge = fst (Unmarshal_CheckChallenge x raw0)
                                          in if ShowChallenge challenge then
                                               (if Contains (ChallengeUrl challenge) ''new RPC url''
                                                then (Inr (Some mapObjects, None),
                                                      setURL (ApiUrl response) s1, w2)
                                                else (Inr (Some mapObjects, None), s1, w2))
                                             else (Inr (Some mapObjects,
                                                        GetErrorFromStatus x
                                                          (ResponseStatusCode response)),
                                                   s1, w2)))))))"

definition CheckChallenge ::
  "ext \<Rightarrow> Session \<Rightarrow> world \<Rightarrow> CheckChallengeResponse ret \<times> Session \<times> world" where
  "CheckChallenge x s w =
     (let requests = [\<lparr>RequestType = CHECK_CHALLENGE, RequestMessage = []\<rparr>]
      in case Call x requests (- 1) s w of
           (Inl p, s1, w1) \<Rightarrow> (Inl p, s1, w1)
         | (Inr (response, Some err), s1, w1) \<Rightarrow> (Inr (None, Some err), s1, w1)
         | (Inr (None, None), s1, w1) \<Rightarrow> (Inl NilDereference, s1, w1)
         | (Inr (Some response, None), s1, w1) \<Rightarrow>
             (if length (Returns response) < 1
              then (Inr (None, Some (ErrorString ''Empty response'')), s1, w1)
              else case index (Returns response) 0 of
                     Inl p \<Rightarrow> (Inl p, s1, w1)
                   | Inr raw0 \<Rightarrow>
                       (case Unmarshal_CheckChallenge x raw0 of
                          (challenge, Some err) \<Rightarrow> (Inr (None, Some (ErrResponse err)), s1, w1)
                        | (challenge, None) \<Rightarrow>
                            (Inr (Some challenge,
                                  GetErrorFromStatus x (ResponseStatusCode response)),
                             s1, feed_Push (PushedCheckChallenge challenge) w1))))"

definition SolveCaptcha ::
  "ext \<Rightarrow> string \<Rightarrow> Session \<Rightarrow> world \<Rightarrow> VerifyChallengeResponse ret \<times> Session \<times> world" where
  "SolveCaptcha x solution s w =
     (case proto_Marshal x (VerifyChallengeMessage solution) of
        (requestMessage, Some err) \<Rightarrow> (Inr (None, Some ErrFormatting), s, w)
      | (requestMessage, None) \<Rightarrow>
          (let requests = [\<lparr>RequestType = VERIFY_CHALLENGE, RequestMessage = requestMessage\<rparr>]
           in case Call x requests (- 1) s w of
                (Inl p, s1, w1) \<Rightarrow> (Inl p, s1, w1)
              | (Inr (response, Some err), s1, w1) \<Rightarrow> (Inr (None, Some err), s1, w1)
              | (Inr (None, None), s1, w1) \<Rightarrow> (Inl NilDereference, s1, w1)
              | (Inr (Some response, None), s1, w1) \<Rightarrow>
                  (if length (Returns response) < 1
                   then (Inr (None, Some (ErrorString ''Empty response'')), s1, w1)
                   else case index (Returns response) 0 of
                          Inl p \<Rightarrow> (Inl p, s1, w1)
                        | Inr raw0 \<Rightarrow>
                            (case Unmarshal_VerifyChallenge x raw0 of
                               (challenge, Some err) \<Rightarrow>
                                 (Inr (None, Some (ErrResponse err)), s1, w1)
                             | (challenge, None) \<Rightarrow>
                                 (Inr (Some challenge,
                                       GetErrorFromStatus x (ResponseStatusCode response)),
                                  s1, feed_Push (PushedVerifyChallenge challenge) w1)))))"

definition GetPlayer ::
  "ext \<Rightarrow> int64 \<Rightarrow> Session \<Rightarrow> world \<Rightarrow> GetPlayerResponse ret \<times> Session \<times> world" where
  "GetPlayer x proxyId s w =
     (let requests = [\<lparr>RequestType = GET_PLAYER, RequestMessage = []\<rparr>]
      in case Call x requests proxyId s w of
           (Inl p, s1, w1) \<Rightarrow> (Inl p, s1, w1)
         | (Inr (response, Some err), s1, w1) \<Rightarrow> (Inr (None, Some err), s1, w1)
         | (Inr (None, None), s1, w1) \<Rightarrow> (Inl NilDereference, s1, w1)
         | (Inr (Some response, None), s1, w1) \<Rightarrow>
             (case index (Returns response) 0 of
                Inl p \<Rightarrow> (Inl p, s1, w1)
              | Inr raw0 \<Rightarrow>
                  (case Unmarshal_GetPlayer x raw0 of
                     (player, Some err) \<Rightarrow> (Inr (None, Some (ErrResponse err)), s1, w1)
                   | (player, None) \<Rightarrow>
                       (Inr (Some player, GetErrorFromStatus x (ResponseStatusCode response)),
                        s1, feed_Push (PushedPlayer player) w1))))"

definition Encounter ::
  "ext \<Rightarrow> uint64 \<Rightarrow> string \<Rightarrow> Location option \<Rightarrow> int64 \<Rightarrow> Session \<Rightarrow> world
     \<Rightarrow> EncounterResponse ret \<times> Session \<times> world" where
  "Encounter x encounterID spawnID loc proxyId s w =
     (case loc of
        None \<Rightarrow> (Inl NilDereference, s, w)
      | Some l \<Rightarrow>
          (case proto_Marshal x (EncounterMessage encounterID spawnID (Lat l) (Lon l)) of
             (requestMessage, Some err) \<Rightarrow> (Inr (None, Some ErrFormatting), s, w)
           | (requestMessage, None) \<Rightarrow>
               (let requests = [\<lparr>RequestType = ENCOUNTER, RequestMessage = requestMessage\<rparr>]
                in case Call x requests proxyId s w of
                     (Inl p, s1, w1) \<Rightarrow> (Inl p, s1, w1)
                   | (Inr (response, Some err), s1, w1) \<Rightarrow> (Inr (None, Some err), s1, w1)
                   | (Inr (None, None), s1, w1) \<Rightarrow> (Inl NilDereference, s1, w1)
                   | (Inr (Some response, None), s1, w1) \<Rightarrow>
                       (if length (Returns response) < 1
                        then (Inr (None, Some (ErrorString ''Empty response'')), s1, w1)
                        else case index (Returns response) 0 of
                               Inl p \<Rightarrow> (Inl p, s1, w1)
                             | Inr raw0 \<Rightarrow>
                                 (case Unmarshal_Encounter x raw0 of
                                    (encounter, Some err) \<Rightarrow>
                                      (Inr (None, Some (ErrResponse err)), s1, w1)
                                  | (encounter, None) \<Rightarrow>
                                      (Inr (Some encounter,
                                            GetErrorFromStatus x (ResponseStatusCode response)),
                                       s1, feed_Push (PushedEncounter encounter) w1))))))"

definition GetPlayerMap ::
  "ext \<Rightarrow> int64 \<Rightarrow> Session \<Rightarrow> world \<Rightarrow> GetMapObjectsResponse ret \<times> Session \<times> world" where
  "GetPlayerMap x proxyId s w = Announce x proxyId s w"

definition GetInventory ::
  "ext \<Rightarrow> int64 \<Rightarrow> Session \<Rightarrow> world \<Rightarrow> GetInventoryResponse ret \<times> Session \<times> world" where
  "GetInventory x proxyId s w =
     (let requests = [\<lparr>RequestType = GET_INVENTORY, RequestMessage = []\<rparr>]
      in case Call x requests proxyId s w of
           (Inl p, s1, w1) \<Rightarrow> (Inl p, s1, w1)
         | (Inr (response, Some err), s1, w1) \<Rightarrow> (Inr (None, Some err), s1, w1)
         | (Inr (None, None), s1, w1) \<Rightarrow> (Inl NilDereference, s1, w1)
         | (Inr (Some response, None), s1, w1) \<Rightarrow>
             (case index (Returns response) 0 of
                Inl p \<Rightarrow> (Inl p, s1, w1)
              | Inr raw0 \<Rightarrow>
                  (case Unmarshal_GetInventory x raw0 of
                     (inventory, Some err) \<Rightarrow> (Inr (None, Some (ErrResponse err)), s1, w1)
                   | (inventory, None) \<Rightarrow>
                       (Inr (Some inventory, GetErrorFromStatus x (ResponseStatusCode response)),
                        s1, feed_Push (PushedInventory inventory) w1))))"


subsection \<open>Properties of a session and of a result\<close>

text \<open>The invariant of the data model: a session that has a ticket holds one.\<close>

definition ticket_held :: "Session \<Rightarrow> bool" where
  "ticket_held s = (hasTicket s \<longrightarrow> ticket s \<noteq> None)"

text \<open>A method returned no payload and an \<open>ErrResponse\<close>, the response-decode error.\<close>

fun returns_ErrResponse :: "'a ret \<Rightarrow> bool" where
  "returns_ErrResponse (Inr (None, Some (ErrResponse err))) = True"
| "returns_ErrResponse r = False"

text \<open>Two states of a session hold the same ticket under the same flag.\<close>

definition same_ticket :: "Session \<Rightarrow> Session \<Rightarrow> bool" where
  "same_ticket s s' = (hasTicket s' = hasTicket s \<and> ticket s' = ticket s)"

text \<open>
  Between an earlier world and a later one exactly one exchange was made, and the transport
  answered it with the response envelope \<open>resp\<close> and no error.
\<close>

definition answered :: "world \<Rightarrow> world \<Rightarrow> ResponseEnvelope \<Rightarrow> bool" where
  "answered w w' resp =
     (case sent w w' of
        [e] \<Rightarrow> ex_response e = Some resp \<and> ex_err e = None
      | _ \<Rightarrow> False)"

subsection \<open>A concrete world\<close>

text \<open>
  Collaborators for running the methods on concrete inputs: a codec that never fails, a
  transport that always answers with the same six sub-responses, a new ticket and a URL
  token, and a clock that starts at 1700000000000 ms and advances 1 ms per reading.
\<close>

definition loc0 :: Location where
  "loc0 = \<lparr>Lat = 1, Lon = 2, Alt = 3, Accuracy = 4\<rparr>"

definition loc1 :: Location where
  "loc1 = \<lparr>Lat = 11, Lon = 12, Alt = 13, Accuracy = 14\<rparr>"

definition ticket0 :: AuthTicket where
  "ticket0 = \<lparr>Start = [], ExpireTimestampMs = 1700000000000, End = []\<rparr>"

definition ticket1 :: AuthTicket where
  "ticket1 = \<lparr>Start = [], ExpireTimestampMs = 1700000900000, End = []\<rparr>"

definition ticket_old :: AuthTicket where
  "ticket_old = \<lparr>Start = [], ExpireTimestampMs = 1600000000000, End = []\<rparr>"

definition resp0 :: ResponseEnvelope where
  "resp0 = \<lparr>ResponseStatusCode = 3, ApiUrl = ''host.example'',
            ResponseAuthTicket = Some ticket1, Returns = [[1], [], [], [], [], [7]]\<rparr>"

text \<open>The same response with no sub-responses, with no ticket, with no URL token.\<close>

definition resp_empty :: ResponseEnvelope where
  "resp_empty = resp0\<lparr>Returns := []\<rparr>"

definition resp_no_ticket :: ResponseEnvelope where
  "resp_no_ticket = resp0\<lparr>ResponseAuthTicket := None\<rparr>"

definition resp_no_url :: ResponseEnvelope where
  "resp_no_url = resp0\<lparr>ApiUrl := []\<rparr>"

text \<open>The same response cut to its first five sub-responses.\<close>

definition resp_five :: ResponseEnvelope where
  "resp_five = resp0\<lparr>Returns := [[1], [], [], [], []]\<rparr>"

text \<open>The same response with \<open>ShowChallenge\<close> unset in its sub-response 0.\<close>

definition resp_quiet :: ResponseEnvelope where
  "resp_quiet = resp0\<lparr>Returns := [[], [], [], [], [], [7]]\<rparr>"

definition decode_challenge :: "bytes \<Rightarrow> CheckChallengeResponse \<times> error option" where
  "decode_challenge b =
     (if b = [1] then (\<lparr>ShowChallenge = True, ChallengeUrl = ''see new RPC url''\<rparr>, None)
      else if b = [2] then (\<lparr>ShowChallenge = True, ChallengeUrl = ''captcha''\<rparr>, None)
      else (\<lparr>ShowChallenge = False, ChallengeUrl = []\<rparr>, None))"

definition ext0 :: ext where
  "ext0 =
     \<lparr>proto_Marshal = (\<lambda>m. ([], None)),
      Unmarshal_GetMapObjects = (\<lambda>b. (GetMapObjectsResponse b, None)),
      Unmarshal_CheckChallenge = decode_challenge,
      Unmarshal_VerifyChallenge = (\<lambda>b. (VerifyChallengeResponse b, None)),
      Unmarshal_GetPlayer = (\<lambda>b. (GetPlayerResponse b, None)),
      Unmarshal_Encounter = (\<lambda>b. (EncounterResponse b, None)),
      Unmarshal_GetInventory = (\<lambda>b. (GetInventoryResponse b, None)),
      HashRequest = (\<lambda>tk req. 0),
      HashLocation1 = (\<lambda>tk lat lon alt. 0),
      HashLocation2 = (\<lambda>lat lon alt. 0),
      Hash25 = 0,
      Encrypt = (\<lambda>b iv. b),
      rpc_Request = (\<lambda>n u e proxyId. (Some resp0, None)),
      Login = (\<lambda>n. None),
      GetProviderString = (\<lambda>n. ''ptc''),
      GetAccessToken = (\<lambda>n. ''token''),
      rand_Read = (\<lambda>n buf. (replicate (length buf) 7, None)),
      clock = (\<lambda>n. 1700000000000000000 + int n * 1000000),
      GetErrorFromStatus = (\<lambda>c. if c = 1 then None else Some (Foreign ''status'')),
      GetCellIDs = (\<lambda>l. [])\<rparr>"

text \<open>The same collaborators with another answer of the transport.\<close>

definition ext_answering :: "ResponseEnvelope \<Rightarrow> ext" where
  "ext_answering resp = ext0\<lparr>rpc_Request := (\<lambda>n u e proxyId. (Some resp, None))\<rparr>"

definition w0 :: world where
  "w0 = \<lparr>exchanges = [], pushed = [], logins = 0, ticks = 0, rands = 0\<rparr>"

text \<open>An unauthenticated session, and authenticated ones holding a given ticket.\<close>

definition s0 :: Session where
  "s0 = \<lparr>location = Some loc0, RPCID = 0, url = [], hasTicket = False, ticket = None,
         started = 1600000000000000000, hash = replicate 32 0\<rparr>"

definition s_with :: "AuthTicket \<Rightarrow> Session" where
  "s_with t = s0\<lparr>hasTicket := True, ticket := Some t\<rparr>"

section \<open>Properties\<close>

subsection \<open>Evaluation and the shape of a call\<close>

lemma sent_same: "exchanges w' = exchanges w \<Longrightarrow> sent w w' = []"
  by (simp add: sent_def)

lemma sent_one: "exchanges w' = exchanges w @ [e] \<Longrightarrow> sent w w' = [e]"
  by (simp add: sent_def)

lemma signRequests_Inr:
  "signRequests x reqs s loc now = Inr prs \<Longrightarrow>
     \<exists>m. prs = [\<lparr>Type = SEND_ENCRYPTED_SIGNATURE, PlatformRequestMessage = m\<rparr>]"
  by (auto simp add: signRequests_def Let_def split: prod.splits option.splits sum.splits)

lemma Call_session: "Call x reqs p s w = (r, s', w') \<Longrightarrow> s' = s"
  by (auto simp add: Call_def rpc_dispatch_def time_Now_def Let_def
      split: prod.splits option.splits sum.splits if_splits)

lemma Call_world:
  "Call x reqs p s w = (r, s', w') \<Longrightarrow>
     pushed w' = pushed w \<and> logins w' = logins w \<and> rands w' = rands w"
  by (auto simp add: Call_def rpc_dispatch_def time_Now_def Let_def
      split: prod.splits option.splits sum.splits if_splits)

lemma Call_exchanges:
  "Call x reqs p s w = (r, s', w') \<Longrightarrow>
     (exchanges w' = exchanges w \<and> (r = Inl NilDereference \<or> (\<exists>err. r = Inr (None, Some err))))
     \<or> (\<exists>e. exchanges w' = exchanges w @ [e] \<and> r = Inr (ex_response e, ex_err e))"
  by (auto simp add: Call_def rpc_dispatch_def time_Now_def Let_def
      split: prod.splits option.splits sum.splits if_splits)

lemma Call_exchange:
  "Call x reqs p s w = (r, s', w') \<Longrightarrow> exchanges w' = exchanges w @ [e] \<Longrightarrow>
     ex_proxy e = p \<and> ex_url e = getURL s \<and> Requests (ex_envelope e) = reqs
     \<and> (\<exists>loc. location s = Some loc \<and> Latitude (ex_envelope e) = Lat loc
          \<and> Longitude (ex_envelope e) = Lon loc \<and> EnvelopeAccuracy (ex_envelope e) = Accuracy loc)
     \<and> (if hasTicket s
         then AuthInfo (ex_envelope e) = None \<and> AuthTicket (ex_envelope e) = ticket s
              \<and> (\<exists>m. PlatformRequests (ex_envelope e) =
                     [\<lparr>Type = SEND_ENCRYPTED_SIGNATURE, PlatformRequestMessage = m\<rparr>])
         else AuthInfo (ex_envelope e) =
                Some \<lparr>Provider = GetProviderString x (logins w),
                      Token = \<lparr>Contents = GetAccessToken x (logins w), Unknown2 = 59\<rparr>\<rparr>
              \<and> AuthTicket (ex_envelope e) = None \<and> PlatformRequests (ex_envelope e) = [])"
proof -
  assume c: "Call x reqs p s w = (r, s', w')" and e: "exchanges w' = exchanges w @ [e]"
  show ?thesis
  proof (cases "hasTicket s")
    case False
    with c e show ?thesis
      by (auto simp add: Call_def rpc_dispatch_def Let_def split: prod.splits option.splits)
  next
    case True
    with c e obtain loc prs where l: "location s = Some loc"
      and sg: "signRequests x reqs s loc (clock x (ticks w)) = Inr prs"
      by (auto simp add: Call_def rpc_dispatch_def time_Now_def Let_def
          split: prod.splits option.splits sum.splits)
    from signRequests_Inr [OF sg] obtain m where
      m: "prs = [\<lparr>Type = SEND_ENCRYPTED_SIGNATURE, PlatformRequestMessage = m\<rparr>]" ..
    from c e True l sg m show ?thesis
      by (auto simp add: Call_def rpc_dispatch_def time_Now_def Let_def split: prod.splits)
  qed
qed


text \<open>The definitions unfolded to run a method in the concrete world.\<close>

lemmas world_defs = loc0_def loc1_def ticket0_def ticket1_def ticket_old_def resp0_def
  resp_empty_def resp_no_ticket_def resp_no_url_def resp_quiet_def resp_five_def
  decode_challenge_def ext0_def ext_answering_def w0_def s0_def s_with_def

lemmas call_defs = Call_def rpc_dispatch_def signRequests_def time_Now_def getURL_def
  getTimestamp_def int64_div_def UnixNano_def Millisecond_def sent_def Let_def

lemma marshal_never_fails:
  "\<forall>m. snd (proto_Marshal x m) = None \<Longrightarrow> proto_Marshal x m \<noteq> (b, Some err)"
  by (metis snd_conv option.distinct(1))

lemma hashRequests_ok:
  "\<forall>m. snd (proto_Marshal x m) = None \<Longrightarrow> \<exists>hs. hashRequests x tk reqs = Inr hs"
proof (induction reqs)
  case Nil
  show ?case by simp
next
  case (Cons r rs)
  then obtain hs where "hashRequests x tk rs = Inr hs" by blast
  then show ?case
    using marshal_never_fails [OF Cons.prems]
    by (auto split: prod.splits option.splits)
qed

lemma signRequests_ok:
  assumes "\<forall>m. snd (proto_Marshal x m) = None"
  shows "\<exists>prs. signRequests x reqs s loc now = Inr prs"
proof -
  obtain hs where
    hs: "hashRequests x (fst (proto_Marshal x (AuthTicketMessage (ticket s)))) reqs = Inr hs"
    using hashRequests_ok [OF assms] by blast
  show ?thesis
    by (simp add: signRequests_def Let_def split_beta assms hs)
qed

lemma Call_dispatches:
  assumes "location s \<noteq> None"
    and "hasTicket s \<longrightarrow> (\<forall>m. snd (proto_Marshal x m) = None)"
  shows "\<exists>e. exchanges (snd (snd (Call x reqs p s w))) = exchanges w @ [e]"
proof (cases "hasTicket s")
  case False
  with assms show ?thesis
    by (auto simp add: Call_def rpc_dispatch_def Let_def split: prod.splits)
next
  case True
  from assms obtain loc where l: "location s = Some loc" by auto
  from True assms signRequests_ok obtain prs where
    "signRequests x reqs s loc (clock x (ticks w)) = Inr prs" by blast
  with True l show ?thesis
    by (auto simp add: Call_def rpc_dispatch_def time_Now_def Let_def split: prod.splits)
qed

subsection \<open>What each method does to the session and to the world\<close>

lemma answered_iff:
  "answered w w' resp \<longleftrightarrow> (\<exists>e. sent w w' = [e] \<and> ex_response e = Some resp \<and> ex_err e = None)"
  by (auto simp add: answered_def split: list.splits)

lemma exchanges_feed_Push [simp]: "exchanges (feed_Push p w) = exchanges w"
  by (simp add: feed_Push_def)

lemma sent_feed_Push [simp]: "sent w (feed_Push p w') = sent w w'"
  by (simp add: sent_def)

lemma sent_tick [simp]: "sent (w\<lparr>ticks := n\<rparr>) w' = sent w w'"
  by (simp add: sent_def)

lemma Call_result:
  assumes "Call x reqs p s w = (r, s', w')"
  shows "s' = s \<and> pushed w' = pushed w \<and> logins w' = logins w \<and> rands w' = rands w
     \<and> ((sent w w' = [] \<and> (r = Inl NilDereference \<or> (\<exists>err. r = Inr (None, Some err))))
        \<or> (\<exists>e. sent w w' = [e] \<and> r = Inr (ex_response e, ex_err e) \<and> ex_proxy e = p))"
proof -
  from Call_exchanges [OF assms] show ?thesis
  proof
    assume "exchanges w' = exchanges w \<and> (r = Inl NilDereference \<or> (\<exists>err. r = Inr (None, Some err)))"
    then show ?thesis
      using Call_session [OF assms] Call_world [OF assms] by (simp add: sent_same)
  next
    assume "\<exists>e. exchanges w' = exchanges w @ [e] \<and> r = Inr (ex_response e, ex_err e)"
    then obtain e where e: "exchanges w' = exchanges w @ [e]" "r = Inr (ex_response e, ex_err e)"
      by blast
    with Call_exchange [OF assms e(1)] show ?thesis
      using Call_session [OF assms] Call_world [OF assms] by (simp add: sent_one)
  qed
qed


lemma answered_feed_Push [simp]: "answered w (feed_Push p w') resp = answered w w' resp"
  by (simp add: answered_def)

lemma answered_tick [simp]: "answered (w\<lparr>ticks := n\<rparr>) w' resp = answered w w' resp"
  by (simp add: answered_def)

lemma answered_logins [simp]: "answered (w\<lparr>logins := n\<rparr>) w' resp = answered w w' resp"
  by (simp add: answered_def sent_def)

lemma answered_rands [simp]: "answered (w\<lparr>rands := n\<rparr>) w' resp = answered w w' resp"
  by (simp add: answered_def sent_def)

lemma not_answered_logins [simp]: "\<not> answered w (w\<lparr>logins := n\<rparr>) resp"
  by (simp add: answered_def sent_def)

lemma not_answered_rands [simp]: "\<not> answered w (w\<lparr>logins := n, rands := k\<rparr>) resp"
  by (simp add: answered_def sent_def)

lemma answered_same [simp]: "\<not> answered w w resp"
  by (simp add: answered_def sent_def)

lemma Call_answered:
  "Call x reqs p s w = (Inr (Some resp, None), s', w') \<Longrightarrow> answered w w' resp"
  by (auto simp add: answered_iff dest!: Call_result)

lemma answered_Call:
  "Call x reqs p s w = (r, s', w') \<Longrightarrow> answered w w' resp \<Longrightarrow>
     r = Inr (Some resp, None) \<and> s' = s \<and> pushed w' = pushed w"
  by (auto simp add: answered_iff dest!: Call_result)

lemmas op_splits = prod.splits sum.splits option.splits if_splits


lemma CheckChallenge_effect:
  assumes "CheckChallenge x s w = (r, s', w')"
  shows "s' = s \<and> (sent w w' = [] \<or> (\<exists>e. sent w w' = [e] \<and> ex_proxy e = - 1))"
  using assms
  by (auto simp add: CheckChallenge_def Let_def split: op_splits dest!: Call_result)

lemma SolveCaptcha_effect:
  assumes "SolveCaptcha x solution s w = (r, s', w')"
  shows "s' = s \<and> (sent w w' = [] \<or> (\<exists>e. sent w w' = [e] \<and> ex_proxy e = - 1))"
  using assms
  by (auto simp add: SolveCaptcha_def Let_def sent_same split: op_splits dest!: Call_result)

lemma GetPlayer_effect:
  assumes "GetPlayer x p s w = (r, s', w')"
  shows "s' = s"
  using assms
  by (auto simp add: GetPlayer_def Let_def split: op_splits dest!: Call_result)

lemma GetInventory_effect:
  assumes "GetInventory x p s w = (r, s', w')"
  shows "s' = s"
  using assms
  by (auto simp add: GetInventory_def Let_def split: op_splits dest!: Call_result)

lemma Encounter_effect:
  assumes "Encounter x encounterID spawnID loc p s w = (r, s', w')"
  shows "s' = s"
  using assms
  by (auto simp add: Encounter_def Let_def split: op_splits dest!: Call_result)

lemma Announce_effect:
  assumes "Announce x p s w = (r, s', w')"
  shows "same_ticket s s' \<and> location s' = location s \<and> started s' = started s
     \<and> hash s' = hash s"
  using assms
  by (auto simp add: Announce_def Let_def time_Now_def same_ticket_def setURL_def
      split: op_splits dest!: Call_result)

text \<open>The methods that check the length first.\<close>

lemma CheckChallenge_empty:
  assumes "CheckChallenge x s w = (r, s', w')" and "answered w w' resp" and "Returns resp = []"
  shows "r = Inr (None, Some (ErrorString ''Empty response'')) \<and> pushed w' = pushed w"
  using assms
  by (auto simp add: CheckChallenge_def Let_def split: op_splits dest: answered_Call)

lemma SolveCaptcha_empty:
  assumes "SolveCaptcha x solution s w = (r, s', w')" and "answered w w' resp"
    and "Returns resp = []"
  shows "r = Inr (None, Some (ErrorString ''Empty response'')) \<and> pushed w' = pushed w"
  using assms
  by (auto simp add: SolveCaptcha_def Let_def split: op_splits dest: answered_Call)

lemma Encounter_empty:
  assumes "Encounter x encounterID spawnID loc p s w = (r, s', w')" and "answered w w' resp"
    and "Returns resp = []"
  shows "r = Inr (None, Some (ErrorString ''Empty response'')) \<and> pushed w' = pushed w"
  using assms
  by (auto simp add: Encounter_def Let_def split: op_splits dest: answered_Call)


lemma Announce_short:
  assumes "Announce x p s w = (r, s', w')" and "answered w w' resp"
    and "length (Returns resp) < 5"
  shows "r = Inr (None, Some (ErrorString ''Empty response'')) \<and> pushed w' = pushed w"
  using assms
  by (auto simp add: Announce_def Let_def time_Now_def split: op_splits
      dest: answered_Call)

text \<open>A returned payload is the decoding of an element that exists.\<close>

lemma index_Inr: "index xs i = Inr y \<Longrightarrow> i < length xs \<and> y = xs ! i"
  by (auto simp add: index_def split: if_splits)

lemma CheckChallenge_payload:
  assumes "CheckChallenge x s w = (Inr (Some c, err), s', w')"
  shows "\<exists>resp. answered w w' resp \<and> 0 < length (Returns resp)
           \<and> Unmarshal_CheckChallenge x (Returns resp ! 0) = (c, None)"
  using assms
  by (auto simp add: CheckChallenge_def Let_def split: op_splits
      dest!: Call_answered index_Inr)

lemma SolveCaptcha_payload:
  assumes "SolveCaptcha x solution s w = (Inr (Some c, err), s', w')"
  shows "\<exists>resp. answered w w' resp \<and> 0 < length (Returns resp)
           \<and> Unmarshal_VerifyChallenge x (Returns resp ! 0) = (c, None)"
  using assms
  by (auto simp add: SolveCaptcha_def Let_def split: op_splits
      dest!: Call_answered index_Inr)

lemma Encounter_payload:
  assumes "Encounter x encounterID spawnID loc p s w = (Inr (Some c, err), s', w')"
  shows "\<exists>resp. answered w w' resp \<and> 0 < length (Returns resp)
           \<and> Unmarshal_Encounter x (Returns resp ! 0) = (c, None)"
  using assms
  by (auto simp add: Encounter_def Let_def split: op_splits
      dest!: Call_answered index_Inr)

lemma GetPlayer_payload:
  assumes "GetPlayer x p s w = (Inr (Some c, err), s', w')"
  shows "\<exists>resp. answered w w' resp \<and> 0 < length (Returns resp)
           \<and> Unmarshal_GetPlayer x (Returns resp ! 0) = (c, None)"
  using assms
  by (auto simp add: GetPlayer_def Let_def split: op_splits
      dest!: Call_answered index_Inr)

lemma GetInventory_payload:
  assumes "GetInventory x p s w = (Inr (Some c, err), s', w')"
  shows "\<exists>resp. answered w w' resp \<and> 0 < length (Returns resp)
           \<and> Unmarshal_GetInventory x (Returns resp ! 0) = (c, None)"
  using assms
  by (auto simp add: GetInventory_def Let_def split: op_splits
      dest!: Call_answered index_Inr)

lemma Announce_payload:
  assumes "Announce x p s w = (Inr (Some c, err), s', w')"
  shows "\<exists>resp. answered w w' resp \<and> 5 < length (Returns resp)
           \<and> Unmarshal_GetMapObjects x (Returns resp ! 5) = (c, None)"
  using assms
  by (auto simp add: Announce_def Let_def time_Now_def split: op_splits
      dest!: Call_answered index_Inr)

lemma Announce_answered:
  assumes "Announce x p s w = (r, s', w')" and "answered w w' resp"
    and "5 < length (Returns resp)"
    and "Unmarshal_GetMapObjects x (Returns resp ! 5) = (mo, None)"
  shows "(r, s') =
     (let challenge = fst (Unmarshal_CheckChallenge x (Returns resp ! 0))
      in if ShowChallenge challenge then
           (if Contains (ChallengeUrl challenge) ''new RPC url''
            then (Inr (Some mo, None), setURL (ApiUrl resp) s)
            else (Inr (Some mo, None), s))
         else (Inr (Some mo, GetErrorFromStatus x (ResponseStatusCode resp)), s))"
  using assms
  by (auto simp add: Announce_def Let_def time_Now_def index_def split: op_splits
      dest: answered_Call)


lemma Init_frame:
  assumes "Init x p s w = (r, s', w')"
  shows "logins w' = Suc (logins w) \<and> started s' = started s \<and> location s' = location s"
  using assms
  by (auto simp add: Init_def Let_def setTicket_def setURL_def split: op_splits
      dest!: Call_result)

lemma Init_hash:
  assumes "Init x p s w = (r, s', w')" and "Login x (logins w) = None"
  shows "hash s' = fst (rand_Read x (rands w) (hash s))"
  using assms
  by (auto simp add: Init_def Let_def setTicket_def setURL_def split: op_splits
      dest!: Call_result)

lemma Init_success:
  assumes "Init x p s w = (Inr None, s', w')"
  shows "\<exists>resp. answered w w' resp \<and> hasTicket s' \<and> ticket s' = ResponseAuthTicket resp"
  using assms
  by (auto simp add: Init_def Let_def setTicket_def setURL_def split: op_splits
      dest!: Call_answered)

lemma Init_other:
  assumes "Init x p s w = (r, s', w')" and "r \<noteq> Inr None"
  shows "same_ticket s s' \<and> url s' = url s"
  using assms
  by (auto simp add: Init_def Let_def same_ticket_def split: op_splits dest!: Call_result)

lemma Init_NoURL:
  assumes "Init x p s w = (r, s', w')" and "answered w w' resp" and "ApiUrl resp = []"
  shows "r = Inr (Some ErrNoURL)"
  using assms
  by (auto simp add: Init_def Let_def split: op_splits dest: answered_Call)

subsection \<open>Expiry\<close>

text \<open>
  C1, as the code has it: \<open>IsExpired\<close> returns true if and only if the session has no
  ticket (the flag is unset or the pointer is nil) or the ticket's expiry timestamp in
  milliseconds is strictly less than the current time in milliseconds. The comparison is
  \<open><\<close>, so a ticket whose expiry equals the current time is not yet expired.
\<close>

theorem IsExpired_strict:
  "fst (IsExpired x s w) \<longleftrightarrow>
     (\<not> hasTicket s \<or> ticket s = None
      \<or> ExpireTimestampMs (the (ticket s)) < getTimestamp (clock x (ticks w)))"
  by (auto simp add: IsExpired_def time_Now_def)

theorem IsExpired_strict_witness:
  "fst (IsExpired ext0 (s_with ticket_old) w0) \<and> hasTicket (s_with ticket_old)
   \<and> ticket (s_with ticket_old) \<noteq> None
   \<and> ExpireTimestampMs (the (ticket (s_with ticket_old))) < getTimestamp (clock ext0 (ticks w0))"
  using IsExpired_strict [of ext0 "s_with ticket_old" w0]
  by (simp add: world_defs getTimestamp_def int64_div_def UnixNano_def Millisecond_def)

text \<open>
  With \<open>\<le>\<close> in place of \<open><\<close> the equivalence fails: the ticket expires at
  1700000000000 ms, the clock reads 1700000000000 ms, and \<open>IsExpired\<close> returns false.
\<close>

theorem IsExpired_at_expiry_counterexample:
  "\<not> (fst (IsExpired ext0 (s_with ticket0) w0) \<longleftrightarrow>
        (\<not> hasTicket (s_with ticket0) \<or> ticket (s_with ticket0) = None
         \<or> ExpireTimestampMs (the (ticket (s_with ticket0))) \<le> getTimestamp (clock ext0 (ticks w0))))"
  by (simp add: IsExpired_def world_defs call_defs)

subsection \<open>What Call attaches\<close>

text \<open>
  C2: for every sequence of sub-requests, the envelope that \<open>Call\<close> hands to the transport
  on a session with \<open>hasTicket\<close> carries exactly one platform request, of type
  \<open>SEND_ENCRYPTED_SIGNATURE\<close>, the session's ticket and no auth-info; on a session without
  \<open>hasTicket\<close> it carries auth-info made of the provider string and the access token, no
  platform request and no ticket. The envelope is handed over (exactly one exchange)
  whenever the location is set and, on the signing path, serialisation succeeds.
\<close>

theorem Call_attachments:
  "(hasTicket s \<longrightarrow>
      (\<forall>e \<in> set (sent w (snd (snd (Call x reqs p s w)))).
         (\<exists>m. PlatformRequests (ex_envelope e) =
                 [\<lparr>Type = SEND_ENCRYPTED_SIGNATURE, PlatformRequestMessage = m\<rparr>])
         \<and> AuthInfo (ex_envelope e) = None \<and> AuthTicket (ex_envelope e) = ticket s))
   \<and> (\<not> hasTicket s \<longrightarrow>
      (\<forall>e \<in> set (sent w (snd (snd (Call x reqs p s w)))).
         AuthInfo (ex_envelope e) =
           Some \<lparr>Provider = GetProviderString x (logins w),
                 Token = \<lparr>Contents = GetAccessToken x (logins w), Unknown2 = 59\<rparr>\<rparr>
         \<and> PlatformRequests (ex_envelope e) = [] \<and> AuthTicket (ex_envelope e) = None))
   \<and> (location s \<noteq> None \<and> (hasTicket s \<longrightarrow> (\<forall>m. snd (proto_Marshal x m) = None)) \<longrightarrow>
        length (sent w (snd (snd (Call x reqs p s w)))) = 1)"
proof -
  obtain r s' w' where c: "Call x reqs p s w = (r, s', w')"
    by (metis prod.collapse)
  have one: "\<And>e. e \<in> set (sent w w') \<Longrightarrow> exchanges w' = exchanges w @ [e]"
    using Call_exchanges [OF c] by (auto simp add: sent_def)
  have a: "hasTicket s \<Longrightarrow> e \<in> set (sent w w') \<Longrightarrow>
        (\<exists>m. PlatformRequests (ex_envelope e) =
                 [\<lparr>Type = SEND_ENCRYPTED_SIGNATURE, PlatformRequestMessage = m\<rparr>])
         \<and> AuthInfo (ex_envelope e) = None \<and> AuthTicket (ex_envelope e) = ticket s" for e
    using Call_exchange [OF c one [of e]] by simp
  have b: "\<not> hasTicket s \<Longrightarrow> e \<in> set (sent w w') \<Longrightarrow>
         AuthInfo (ex_envelope e) =
           Some \<lparr>Provider = GetProviderString x (logins w),
                 Token = \<lparr>Contents = GetAccessToken x (logins w), Unknown2 = 59\<rparr>\<rparr>
         \<and> PlatformRequests (ex_envelope e) = [] \<and> AuthTicket (ex_envelope e) = None" for e
    using Call_exchange [OF c one [of e]] by simp
  have d: "location s \<noteq> None \<Longrightarrow> hasTicket s \<longrightarrow> (\<forall>m. snd (proto_Marshal x m) = None) \<Longrightarrow>
        length (sent w w') = 1"
    using Call_dispatches [of s x reqs p w] c by (auto simp add: sent_def)
  from a b d show ?thesis unfolding c by auto
qed

theorem Call_attachments_witness:
  "hasTicket (s_with ticket0) \<and> \<not> hasTicket s0 \<and> location s0 \<noteq> None
   \<and> location (s_with ticket0) \<noteq> None \<and> (\<forall>m. snd (proto_Marshal ext0 m) = None)
   \<and> map (\<lambda>e. PlatformRequests (ex_envelope e))
        (sent w0 (snd (snd (Call ext0 [] 0 (s_with ticket0) w0))))
       = [[\<lparr>Type = SEND_ENCRYPTED_SIGNATURE, PlatformRequestMessage = []\<rparr>]]
   \<and> map (\<lambda>e. AuthInfo (ex_envelope e))
        (sent w0 (snd (snd (Call ext0 [] 0 (s_with ticket0) w0)))) = [None]
   \<and> map (\<lambda>e. AuthInfo (ex_envelope e)) (sent w0 (snd (snd (Call ext0 [] 0 s0 w0))))
       = [Some \<lparr>Provider = ''ptc'', Token = \<lparr>Contents = ''token'', Unknown2 = 59\<rparr>\<rparr>]
   \<and> map (\<lambda>e. PlatformRequests (ex_envelope e)) (sent w0 (snd (snd (Call ext0 [] 0 s0 w0))))
       = [[]]"
  using Call_attachments [of "s_with ticket0" w0 ext0 "[]" 0]
    Call_attachments [of s0 w0 ext0 "[]" 0]
  by (simp add: world_defs call_defs)

subsection \<open>Running the methods in the concrete world\<close>

lemma marker_found: "Contains ''see new RPC url'' ''new RPC url''"
  by code_simp

lemma marker_absent: "\<not> Contains ''captcha'' ''new RPC url''"
  by code_simp

lemma marker_absent_empty: "\<not> Contains [] ''new RPC url''"
  by code_simp

lemma triple: "t = (fst t, fst (snd t), snd (snd t))"
  by simp

lemmas op_defs = Init_def Announce_def CheckChallenge_def SolveCaptcha_def GetPlayer_def
  Encounter_def GetInventory_def MoveTo_def NewSession_def index_def feed_Push_def
  setURL_def setTicket_def answered_def

lemma GetPlayer_empty_panics:
  "fst (GetPlayer (ext_answering resp_empty) 0 s0 w0) = Inl IndexOutOfRange"
  by (simp add: world_defs call_defs op_defs)

lemma GetInventory_empty_panics:
  "fst (GetInventory (ext_answering resp_empty) 0 s0 w0) = Inl IndexOutOfRange"
  by (simp add: world_defs call_defs op_defs)

lemma Announce_five_panics:
  "fst (Announce (ext_answering resp_five) 0 s0 w0) = Inl IndexOutOfRange"
  by (simp add: world_defs call_defs op_defs)

subsection \<open>The ticket invariant\<close>

text \<open>
  C3, as the code has it: construction establishes the invariant that \<open>hasTicket\<close>
  implies a non-nil ticket, and \<open>Call\<close>, \<open>MoveTo\<close>, \<open>Announce\<close>, \<open>CheckChallenge\<close>,
  \<open>SolveCaptcha\<close>, \<open>GetPlayer\<close>, \<open>Encounter\<close> and \<open>GetInventory\<close> preserve it. \<open>Init\<close>
  preserves it when the response of its exchange carries a ticket; after a successful
  \<open>Init\<close> the flag is set and the stored ticket is the \<open>AuthTicket\<close> field of that
  response, whatever it is.
\<close>

theorem ticket_held_kept:
  "ticket_held (fst (NewSession x loc w))
   \<and> (ticket_held s \<longrightarrow>
        ticket_held (fst (snd (Call x reqs p s w)))
        \<and> ticket_held (fst (MoveTo loc s w))
        \<and> ticket_held (fst (snd (Announce x p s w)))
        \<and> ticket_held (fst (snd (CheckChallenge x s w)))
        \<and> ticket_held (fst (snd (SolveCaptcha x solution s w)))
        \<and> ticket_held (fst (snd (GetPlayer x p s w)))
        \<and> ticket_held (fst (snd (Encounter x encounterID spawnID loc p s w)))
        \<and> ticket_held (fst (snd (GetInventory x p s w)))
        \<and> ((\<forall>resp. answered w (snd (snd (Init x p s w))) resp
                     \<longrightarrow> ResponseAuthTicket resp \<noteq> None)
             \<longrightarrow> ticket_held (fst (snd (Init x p s w)))))
   \<and> (fst (Init x p s w) = Inr None \<longrightarrow>
        (\<exists>resp. answered w (snd (snd (Init x p s w))) resp
           \<and> hasTicket (fst (snd (Init x p s w)))
           \<and> ticket (fst (snd (Init x p s w))) = ResponseAuthTicket resp))"
proof -
  have new: "ticket_held (fst (NewSession x loc w))"
    by (simp add: NewSession_def ticket_held_def time_Now_def)
  have call: "fst (snd (Call x reqs p s w)) = s"
    using Call_session [of x reqs p s w] by (metis prod.collapse)
  have move: "ticket_held s \<Longrightarrow> ticket_held (fst (MoveTo loc s w))"
    by (simp add: MoveTo_def ticket_held_def)
  have ann: "ticket_held s \<Longrightarrow> ticket_held (fst (snd (Announce x p s w)))"
    using Announce_effect [OF triple [of "Announce x p s w"]]
    by (auto simp add: ticket_held_def same_ticket_def)
  have cc: "fst (snd (CheckChallenge x s w)) = s"
    using CheckChallenge_effect [of x s w] by (metis prod.collapse)
  have sc: "fst (snd (SolveCaptcha x solution s w)) = s"
    using SolveCaptcha_effect [of x solution s w] by (metis prod.collapse)
  have gp: "fst (snd (GetPlayer x p s w)) = s"
    using GetPlayer_effect [of x p s w] by (metis prod.collapse)
  have en: "fst (snd (Encounter x encounterID spawnID loc p s w)) = s"
    using Encounter_effect [of x encounterID spawnID loc p s w] by (metis prod.collapse)
  have gi: "fst (snd (GetInventory x p s w)) = s"
    using GetInventory_effect [of x p s w] by (metis prod.collapse)
  have init: "ticket_held (fst (snd (Init x p s w)))"
    if h: "ticket_held s"
      and a: "\<forall>resp. answered w (snd (snd (Init x p s w))) resp \<longrightarrow> ResponseAuthTicket resp \<noteq> None"
  proof -
    obtain r s' w' where i: "Init x p s w = (r, s', w')" by (metis prod_cases3)
    show ?thesis
    proof (cases "r = Inr None")
      case True
      with i Init_success obtain resp where
        "answered w w' resp" "ticket s' = ResponseAuthTicket resp" by blast
      with a i show ?thesis by (simp add: ticket_held_def)
    next
      case False
      with i Init_other have "same_ticket s s'" by blast
      with h i show ?thesis by (simp add: ticket_held_def same_ticket_def)
    qed
  qed
  have ok: "\<exists>resp. answered w (snd (snd (Init x p s w))) resp
           \<and> hasTicket (fst (snd (Init x p s w)))
           \<and> ticket (fst (snd (Init x p s w))) = ResponseAuthTicket resp"
    if "fst (Init x p s w) = Inr None"
    using Init_success [of x p s w "fst (snd (Init x p s w))" "snd (snd (Init x p s w))"] that
    by (metis prod.collapse)
  from new move ann init ok show ?thesis
    unfolding call cc sc gp en gi by blast
qed

theorem ticket_held_kept_witness:
  "hasTicket (s_with ticket0) \<and> ticket (s_with ticket0) = Some ticket0
   \<and> hasTicket (fst (snd (GetPlayer ext0 0 (s_with ticket0) w0)))
   \<and> ticket (fst (snd (GetPlayer ext0 0 (s_with ticket0) w0))) = Some ticket0
   \<and> answered w0 (snd (snd (Init ext0 0 (s_with ticket0) w0))) resp0
   \<and> ResponseAuthTicket resp0 = Some ticket1
   \<and> hasTicket (fst (snd (Init ext0 0 (s_with ticket0) w0)))
   \<and> ticket (fst (snd (Init ext0 0 (s_with ticket0) w0))) = Some ticket1"
  using ticket_held_kept [of ext0 "Some loc0" w0 "s_with ticket0" "[]" 0 "[]" 0 "[]"]
  by (simp add: world_defs call_defs op_defs)

text \<open>
  \<open>Init\<close> stores the ticket of the response without looking at it: on a response with a
  URL token and no ticket it returns nil and leaves \<open>hasTicket\<close> set over a nil ticket.
\<close>

theorem Init_nil_ticket_counterexample:
  "ticket_held s0
   \<and> fst (Init (ext_answering resp_no_ticket) 0 s0 w0) = Inr None
   \<and> \<not> ticket_held (fst (snd (Init (ext_answering resp_no_ticket) 0 s0 w0)))"
  by (simp add: ticket_held_def world_defs call_defs op_defs)


subsection \<open>Responses that are too short\<close>

text \<open>
  C4, as the code has it: when the response has no sub-response, \<open>CheckChallenge\<close>,
  \<open>SolveCaptcha\<close> and \<open>Encounter\<close> return the error \<open>errors.New("Empty response")\<close>, which
  is not the response-decode error \<open>ErrResponse\<close>, with no payload and nothing pushed to
  the feed; \<open>Announce\<close> does the same when the response has fewer than five sub-responses.
  For each of the six methods, a payload is returned only when the index it is decoded
  from exists in the response, and it is what the decoder made of that element.
\<close>

theorem short_Returns:
  "(answered w (snd (snd (CheckChallenge x s w))) resp \<and> Returns resp = [] \<longrightarrow>
      fst (CheckChallenge x s w) = Inr (None, Some (ErrorString ''Empty response''))
      \<and> pushed (snd (snd (CheckChallenge x s w))) = pushed w)
   \<and> (answered w (snd (snd (SolveCaptcha x solution s w))) resp \<and> Returns resp = [] \<longrightarrow>
      fst (SolveCaptcha x solution s w) = Inr (None, Some (ErrorString ''Empty response''))
      \<and> pushed (snd (snd (SolveCaptcha x solution s w))) = pushed w)
   \<and> (answered w (snd (snd (Encounter x encounterID spawnID loc p s w))) resp
        \<and> Returns resp = [] \<longrightarrow>
      fst (Encounter x encounterID spawnID loc p s w)
        = Inr (None, Some (ErrorString ''Empty response''))
      \<and> pushed (snd (snd (Encounter x encounterID spawnID loc p s w))) = pushed w)
   \<and> (answered w (snd (snd (Announce x p s w))) resp \<and> length (Returns resp) < 5 \<longrightarrow>
      fst (Announce x p s w) = Inr (None, Some (ErrorString ''Empty response''))
      \<and> pushed (snd (snd (Announce x p s w))) = pushed w)
   \<and> (fst (CheckChallenge x s w) = Inr (Some c1, e) \<longrightarrow>
        (\<exists>r. answered w (snd (snd (CheckChallenge x s w))) r \<and> 0 < length (Returns r)
           \<and> Unmarshal_CheckChallenge x (Returns r ! 0) = (c1, None)))
   \<and> (fst (SolveCaptcha x solution s w) = Inr (Some c2, e) \<longrightarrow>
        (\<exists>r. answered w (snd (snd (SolveCaptcha x solution s w))) r \<and> 0 < length (Returns r)
           \<and> Unmarshal_VerifyChallenge x (Returns r ! 0) = (c2, None)))
   \<and> (fst (Encounter x encounterID spawnID loc p s w) = Inr (Some c3, e) \<longrightarrow>
        (\<exists>r. answered w (snd (snd (Encounter x encounterID spawnID loc p s w))) r
           \<and> 0 < length (Returns r)
           \<and> Unmarshal_Encounter x (Returns r ! 0) = (c3, None)))
   \<and> (fst (Announce x p s w) = Inr (Some c4, e) \<longrightarrow>
        (\<exists>r. answered w (snd (snd (Announce x p s w))) r \<and> 5 < length (Returns r)
           \<and> Unmarshal_GetMapObjects x (Returns r ! 5) = (c4, None)))
   \<and> (fst (GetPlayer x p s w) = Inr (Some c5, e) \<longrightarrow>
        (\<exists>r. answered w (snd (snd (GetPlayer x p s w))) r \<and> 0 < length (Returns r)
           \<and> Unmarshal_GetPlayer x (Returns r ! 0) = (c5, None)))
   \<and> (fst (GetInventory x p s w) = Inr (Some c6, e) \<longrightarrow>
        (\<exists>r. answered w (snd (snd (GetInventory x p s w))) r \<and> 0 < length (Returns r)
           \<and> Unmarshal_GetInventory x (Returns r ! 0) = (c6, None)))"
proof -
  have eq: "f = (a, snd f) \<longleftrightarrow> fst f = a" for f :: "'a \<times> 'b" and a
    by (cases f) simp
  show ?thesis
    using CheckChallenge_empty [OF triple [of "CheckChallenge x s w"], of resp]
      SolveCaptcha_empty [OF triple [of "SolveCaptcha x solution s w"], of resp]
      Encounter_empty [OF triple [of "Encounter x encounterID spawnID loc p s w"], of resp]
      Announce_short [OF triple [of "Announce x p s w"], of resp]
      CheckChallenge_payload [of x s w c1 e "fst (snd (CheckChallenge x s w))"
        "snd (snd (CheckChallenge x s w))"]
      SolveCaptcha_payload [of x solution s w c2 e "fst (snd (SolveCaptcha x solution s w))"
        "snd (snd (SolveCaptcha x solution s w))"]
      Encounter_payload [of x encounterID spawnID loc p s w c3 e
        "fst (snd (Encounter x encounterID spawnID loc p s w))"
        "snd (snd (Encounter x encounterID spawnID loc p s w))"]
      Announce_payload [of x p s w c4 e "fst (snd (Announce x p s w))"
        "snd (snd (Announce x p s w))"]
      GetPlayer_payload [of x p s w c5 e "fst (snd (GetPlayer x p s w))"
        "snd (snd (GetPlayer x p s w))"]
      GetInventory_payload [of x p s w c6 e "fst (snd (GetInventory x p s w))"
        "snd (snd (GetInventory x p s w))"]
    by (simp add: eq)
qed


theorem short_Returns_witness:
  "answered w0 (snd (snd (CheckChallenge (ext_answering resp_empty) s0 w0))) resp_empty
   \<and> Returns resp_empty = []
   \<and> fst (CheckChallenge (ext_answering resp_empty) s0 w0)
       = Inr (None, Some (ErrorString ''Empty response''))
   \<and> pushed (snd (snd (CheckChallenge (ext_answering resp_empty) s0 w0))) = pushed w0
   \<and> answered w0 (snd (snd (Announce (ext_answering resp_empty) 0 s0 w0))) resp_empty
   \<and> fst (Announce (ext_answering resp_empty) 0 s0 w0)
       = Inr (None, Some (ErrorString ''Empty response''))
   \<and> fst (GetPlayer ext0 0 s0 w0) = Inr (Some (GetPlayerResponse [1]), Some (Foreign ''status''))
   \<and> (\<exists>r. answered w0 (snd (snd (GetPlayer ext0 0 s0 w0))) r \<and> 0 < length (Returns r)
          \<and> Unmarshal_GetPlayer ext0 (Returns r ! 0) = (GetPlayerResponse [1], None))"
proof -
  have a: "answered w0 (snd (snd (CheckChallenge (ext_answering resp_empty) s0 w0))) resp_empty"
    "answered w0 (snd (snd (Announce (ext_answering resp_empty) 0 s0 w0))) resp_empty"
    by (simp_all add: world_defs call_defs op_defs)
  have b: "Returns resp_empty = []" "length (Returns resp_empty) < 5"
    by (simp_all add: world_defs)
  have c: "fst (GetPlayer ext0 0 s0 w0)
       = Inr (Some (GetPlayerResponse [1]), Some (Foreign ''status''))"
    by (simp add: world_defs call_defs op_defs)
  note empty = short_Returns [where x = "ext_answering resp_empty" and s = s0 and w = w0
      and resp = resp_empty and p = 0]
  note payload = short_Returns [where x = ext0 and s = s0 and w = w0 and p = 0
      and ?c5.0 = "GetPlayerResponse [1]" and e = "Some (Foreign ''status'')"]
  note c2 = conjunct2
  from empty [THEN conjunct1] empty [THEN c2, THEN c2, THEN c2, THEN conjunct1]
    payload [THEN c2, THEN c2, THEN c2, THEN c2, THEN c2, THEN c2, THEN c2, THEN c2,
      THEN conjunct1] a b c
  show ?thesis by blast
qed

text \<open>
  The error returned for a response that is too short is not an \<open>ErrResponse\<close>.
\<close>

theorem CheckChallenge_empty_counterexample:
  "answered w0 (snd (snd (CheckChallenge (ext_answering resp_empty) s0 w0))) resp_empty
   \<and> length (Returns resp_empty) < 1
   \<and> \<not> returns_ErrResponse (fst (CheckChallenge (ext_answering resp_empty) s0 w0))"
  by (simp add: world_defs call_defs op_defs)


subsection \<open>The challenge check of Announce\<close>

text \<open>
  C5: for every response of a successful exchange whose map-objects sub-response (index 5)
  is present and decodes, when the challenge-check sub-response (index 0) decodes with
  \<open>ShowChallenge\<close> true and a challenge URL containing the marker \<open>new RPC url\<close>,
  \<open>Announce\<close> sets the session's base URL from the response's URL token and returns the
  decoded map objects with a nil error; when \<open>ShowChallenge\<close> is false, it returns the
  decoded map objects with the error that \<open>GetErrorFromStatus\<close> derives from the
  envelope's status code, and the base URL is unchanged. (With \<open>ShowChallenge\<close> true and
  no marker the error is nil too, and the URL is unchanged.)
\<close>

theorem Announce_challenge:
  "answered w (snd (snd (Announce x p s w))) resp \<and> 5 < length (Returns resp)
   \<and> Unmarshal_GetMapObjects x (Returns resp ! 5) = (mo, None)
   \<and> fst (Unmarshal_CheckChallenge x (Returns resp ! 0)) = ch \<longrightarrow>
     (ShowChallenge ch \<and> Contains (ChallengeUrl ch) ''new RPC url'' \<longrightarrow>
        fst (Announce x p s w) = Inr (Some mo, None)
        \<and> url (fst (snd (Announce x p s w))) = ''https://'' @ ApiUrl resp @ ''/rpc'')
     \<and> (ShowChallenge ch \<and> \<not> Contains (ChallengeUrl ch) ''new RPC url'' \<longrightarrow>
        fst (Announce x p s w) = Inr (Some mo, None)
        \<and> url (fst (snd (Announce x p s w))) = url s)
     \<and> (\<not> ShowChallenge ch \<longrightarrow>
        fst (Announce x p s w) = Inr (Some mo, GetErrorFromStatus x (ResponseStatusCode resp))
        \<and> url (fst (snd (Announce x p s w))) = url s)"
proof (intro impI, elim conjE)
  assume a: "answered w (snd (snd (Announce x p s w))) resp" "5 < length (Returns resp)"
    "Unmarshal_GetMapObjects x (Returns resp ! 5) = (mo, None)"
    and ch: "fst (Unmarshal_CheckChallenge x (Returns resp ! 0)) = ch"
  have "(fst (Announce x p s w), fst (snd (Announce x p s w))) =
     (if ShowChallenge ch then
        (if Contains (ChallengeUrl ch) ''new RPC url''
         then (Inr (Some mo, None), setURL (ApiUrl resp) s)
         else (Inr (Some mo, None), s))
      else (Inr (Some mo, GetErrorFromStatus x (ResponseStatusCode resp)), s))"
    using Announce_answered [OF triple [of "Announce x p s w"] a] ch by (simp add: Let_def)
  then show "(ShowChallenge ch \<and> Contains (ChallengeUrl ch) ''new RPC url'' \<longrightarrow>
        fst (Announce x p s w) = Inr (Some mo, None)
        \<and> url (fst (snd (Announce x p s w))) = ''https://'' @ ApiUrl resp @ ''/rpc'')
     \<and> (ShowChallenge ch \<and> \<not> Contains (ChallengeUrl ch) ''new RPC url'' \<longrightarrow>
        fst (Announce x p s w) = Inr (Some mo, None)
        \<and> url (fst (snd (Announce x p s w))) = url s)
     \<and> (\<not> ShowChallenge ch \<longrightarrow>
        fst (Announce x p s w) = Inr (Some mo, GetErrorFromStatus x (ResponseStatusCode resp))
        \<and> url (fst (snd (Announce x p s w))) = url s)"
    by (simp add: setURL_def split: if_splits)
qed

theorem Announce_challenge_witness:
  "answered w0 (snd (snd (Announce ext0 0 s0 w0))) resp0 \<and> 5 < length (Returns resp0)
   \<and> Unmarshal_GetMapObjects ext0 (Returns resp0 ! 5) = (GetMapObjectsResponse [7], None)
   \<and> ShowChallenge (fst (Unmarshal_CheckChallenge ext0 (Returns resp0 ! 0)))
   \<and> Contains (ChallengeUrl (fst (Unmarshal_CheckChallenge ext0 (Returns resp0 ! 0))))
        ''new RPC url''
   \<and> fst (Announce ext0 0 s0 w0) = Inr (Some (GetMapObjectsResponse [7]), None)
   \<and> url (fst (snd (Announce ext0 0 s0 w0))) = ''https://host.example/rpc''
   \<and> url s0 = []
   \<and> answered w0 (snd (snd (Announce (ext_answering resp_quiet) 0 s0 w0))) resp_quiet
   \<and> \<not> ShowChallenge
         (fst (Unmarshal_CheckChallenge (ext_answering resp_quiet) (Returns resp_quiet ! 0)))
   \<and> fst (Announce (ext_answering resp_quiet) 0 s0 w0)
       = Inr (Some (GetMapObjectsResponse [7]), Some (Foreign ''status''))"
proof -
  have a: "answered w0 (snd (snd (Announce ext0 0 s0 w0))) resp0"
    "answered w0 (snd (snd (Announce (ext_answering resp_quiet) 0 s0 w0))) resp_quiet"
    by (simp_all add: world_defs call_defs op_defs)
  have b: "5 < length (Returns resp0)"
    "Unmarshal_GetMapObjects ext0 (Returns resp0 ! 5) = (GetMapObjectsResponse [7], None)"
    "ShowChallenge (fst (Unmarshal_CheckChallenge ext0 (Returns resp0 ! 0)))"
    "url s0 = []" "ApiUrl resp0 = ''host.example''"
    by (simp_all add: world_defs)
  have c: "Contains (ChallengeUrl (fst (Unmarshal_CheckChallenge ext0 (Returns resp0 ! 0))))
        ''new RPC url''"
    using marker_found by (simp add: world_defs)
  have d: "5 < length (Returns resp_quiet)"
    "Unmarshal_GetMapObjects (ext_answering resp_quiet) (Returns resp_quiet ! 5)
       = (GetMapObjectsResponse [7], None)"
    "\<not> ShowChallenge
         (fst (Unmarshal_CheckChallenge (ext_answering resp_quiet) (Returns resp_quiet ! 0)))"
    "GetErrorFromStatus (ext_answering resp_quiet) (ResponseStatusCode resp_quiet)
       = Some (Foreign ''status'')"
    by (simp_all add: world_defs)
  from Announce_challenge [of w0 ext0 0 s0 resp0 "GetMapObjectsResponse [7]"
      "fst (Unmarshal_CheckChallenge ext0 (Returns resp0 ! 0))"] a b c
    Announce_challenge [of w0 "ext_answering resp_quiet" 0 s0 resp_quiet
      "GetMapObjectsResponse [7]"
      "fst (Unmarshal_CheckChallenge (ext_answering resp_quiet) (Returns resp_quiet ! 0))"] d
  show ?thesis by simp
qed

subsection \<open>Init without a URL\<close>

text \<open>
  C6: for every bootstrap response whose API URL field is the empty string, \<open>Init\<close>
  returns \<open>ErrNoURL\<close>, whatever ticket the response carries, and the session's
  \<open>hasTicket\<close> flag, ticket and base URL are what they were before the call.
\<close>

theorem Init_NoURL_keeps_state:
  "answered w (snd (snd (Init x p s w))) resp \<and> ApiUrl resp = [] \<longrightarrow>
     fst (Init x p s w) = Inr (Some ErrNoURL)
     \<and> hasTicket (fst (snd (Init x p s w))) = hasTicket s
     \<and> ticket (fst (snd (Init x p s w))) = ticket s
     \<and> url (fst (snd (Init x p s w))) = url s"
proof (intro impI, elim conjE)
  assume a: "answered w (snd (snd (Init x p s w))) resp" and u: "ApiUrl resp = []"
  have r: "fst (Init x p s w) = Inr (Some ErrNoURL)"
    using Init_NoURL [OF triple [of "Init x p s w"] a u] .
  then have "fst (Init x p s w) \<noteq> Inr None" by simp
  from Init_other [OF triple [of "Init x p s w"] this] r
  show "fst (Init x p s w) = Inr (Some ErrNoURL)
     \<and> hasTicket (fst (snd (Init x p s w))) = hasTicket s
     \<and> ticket (fst (snd (Init x p s w))) = ticket s
     \<and> url (fst (snd (Init x p s w))) = url s"
    by (simp add: same_ticket_def)
qed

theorem Init_NoURL_keeps_state_witness:
  "answered w0 (snd (snd (Init (ext_answering resp_no_url) 0 s0 w0))) resp_no_url
   \<and> ApiUrl resp_no_url = [] \<and> ResponseAuthTicket resp_no_url = Some ticket1
   \<and> fst (Init (ext_answering resp_no_url) 0 s0 w0) = Inr (Some ErrNoURL)
   \<and> hasTicket (fst (snd (Init (ext_answering resp_no_url) 0 s0 w0))) = False
   \<and> ticket (fst (snd (Init (ext_answering resp_no_url) 0 s0 w0))) = None
   \<and> url (fst (snd (Init (ext_answering resp_no_url) 0 s0 w0))) = []"
proof -
  have a: "answered w0 (snd (snd (Init (ext_answering resp_no_url) 0 s0 w0))) resp_no_url"
    by (simp add: world_defs call_defs op_defs)
  have b: "ApiUrl resp_no_url = []" "ResponseAuthTicket resp_no_url = Some ticket1"
    "hasTicket s0 = False" "ticket s0 = None" "url s0 = []"
    by (simp_all add: world_defs)
  from Init_NoURL_keeps_state [of w0 "ext_answering resp_no_url" 0 s0 resp_no_url] a b
  show ?thesis by simp
qed

subsection \<open>Where the ticket is replaced\<close>

text \<open>
  C7, as the code has it: only \<open>Init\<close> stores a ticket taken from a response. When
  \<open>Init\<close> returns nil, the stored ticket is the \<open>AuthTicket\<close> field of the bootstrap
  response and \<open>hasTicket\<close> is set. \<open>Call\<close> and the methods built on it (\<open>Announce\<close>,
  \<open>CheckChallenge\<close>, \<open>SolveCaptcha\<close>, \<open>GetPlayer\<close>, \<open>Encounter\<close>, \<open>GetInventory\<close>)
  leave the flag and the stored ticket as they were, whatever the response carries.
\<close>

theorem ticket_stored_by_Init_only:
  "(fst (Init x p s w) = Inr None \<longrightarrow>
      (\<exists>resp. answered w (snd (snd (Init x p s w))) resp
         \<and> hasTicket (fst (snd (Init x p s w)))
         \<and> ticket (fst (snd (Init x p s w))) = ResponseAuthTicket resp))
   \<and> same_ticket s (fst (snd (Call x reqs p s w)))
   \<and> same_ticket s (fst (snd (Announce x p s w)))
   \<and> same_ticket s (fst (snd (CheckChallenge x s w)))
   \<and> same_ticket s (fst (snd (SolveCaptcha x solution s w)))
   \<and> same_ticket s (fst (snd (GetPlayer x p s w)))
   \<and> same_ticket s (fst (snd (Encounter x encounterID spawnID loc p s w)))
   \<and> same_ticket s (fst (snd (GetInventory x p s w)))"
proof -
  have ok: "\<exists>resp. answered w (snd (snd (Init x p s w))) resp
           \<and> hasTicket (fst (snd (Init x p s w)))
           \<and> ticket (fst (snd (Init x p s w))) = ResponseAuthTicket resp"
    if "fst (Init x p s w) = Inr None"
    using Init_success [of x p s w "fst (snd (Init x p s w))" "snd (snd (Init x p s w))"] that
    by (metis prod.collapse)
  have call: "fst (snd (Call x reqs p s w)) = s"
    using Call_session [OF triple [of "Call x reqs p s w"]] .
  have cc: "fst (snd (CheckChallenge x s w)) = s"
    using CheckChallenge_effect [OF triple [of "CheckChallenge x s w"]] by simp
  have sc: "fst (snd (SolveCaptcha x solution s w)) = s"
    using SolveCaptcha_effect [OF triple [of "SolveCaptcha x solution s w"]] by simp
  have gp: "fst (snd (GetPlayer x p s w)) = s"
    using GetPlayer_effect [OF triple [of "GetPlayer x p s w"]] .
  have en: "fst (snd (Encounter x encounterID spawnID loc p s w)) = s"
    using Encounter_effect [OF triple [of "Encounter x encounterID spawnID loc p s w"]] .
  have gi: "fst (snd (GetInventory x p s w)) = s"
    using GetInventory_effect [OF triple [of "GetInventory x p s w"]] .
  have ann: "same_ticket s (fst (snd (Announce x p s w)))"
    using Announce_effect [OF triple [of "Announce x p s w"]] by simp
  have refl: "same_ticket s s" by (simp add: same_ticket_def)
  from ok ann refl show ?thesis
    unfolding call cc sc gp en gi by blast
qed

theorem ticket_stored_by_Init_only_witness:
  "fst (Init ext0 0 s0 w0) = Inr None
   \<and> answered w0 (snd (snd (Init ext0 0 s0 w0))) resp0
   \<and> hasTicket (fst (snd (Init ext0 0 s0 w0)))
   \<and> ticket (fst (snd (Init ext0 0 s0 w0))) = ResponseAuthTicket resp0"
  using ticket_stored_by_Init_only [of ext0 0 s0 w0 "[]" "[]" 0 "[]" None]
  by (simp add: world_defs call_defs op_defs)

text \<open>
  \<open>GetPlayer\<close> on a session holding \<open>ticket0\<close>, answered by a response that carries
  \<open>ticket1\<close>: the session still holds \<open>ticket0\<close>.
\<close>

theorem GetPlayer_new_ticket_counterexample:
  "answered w0 (snd (snd (GetPlayer ext0 0 (s_with ticket0) w0))) resp0
   \<and> ResponseAuthTicket resp0 = Some ticket1
   \<and> ticket (fst (snd (GetPlayer ext0 0 (s_with ticket0) w0))) = Some ticket0
   \<and> ticket0 \<noteq> ticket1"
  by (simp add: world_defs call_defs op_defs)


subsection \<open>Calling Init again\<close>

text \<open>
  C8, as the code has it: every invocation of \<open>Init\<close> runs the provider's login once
  more; when the login succeeds, the session hash is overwritten by the random source;
  when \<open>Init\<close> returns nil, the ticket is replaced by the one of the bootstrap response.
  The session start time is set only at construction: \<open>Init\<close> never changes it.
\<close>

theorem Init_rerun:
  "logins (snd (snd (Init x p s w))) = Suc (logins w)
   \<and> started (fst (snd (Init x p s w))) = started s
   \<and> (Login x (logins w) = None \<longrightarrow>
        hash (fst (snd (Init x p s w))) = fst (rand_Read x (rands w) (hash s)))
   \<and> (fst (Init x p s w) = Inr None \<longrightarrow>
        (\<exists>resp. answered w (snd (snd (Init x p s w))) resp
           \<and> hasTicket (fst (snd (Init x p s w)))
           \<and> ticket (fst (snd (Init x p s w))) = ResponseAuthTicket resp))"
proof -
  note i = triple [of "Init x p s w"]
  have ok: "\<exists>resp. answered w (snd (snd (Init x p s w))) resp
           \<and> hasTicket (fst (snd (Init x p s w)))
           \<and> ticket (fst (snd (Init x p s w))) = ResponseAuthTicket resp"
    if "fst (Init x p s w) = Inr None"
    using Init_success [of x p s w "fst (snd (Init x p s w))" "snd (snd (Init x p s w))"] that
    by (metis prod.collapse)
  from Init_frame [OF i] Init_hash [OF i] ok show ?thesis by blast
qed

theorem Init_rerun_witness:
  "Login ext0 (logins w0) = None
   \<and> fst (Init ext0 0 (s_with ticket0) w0) = Inr None
   \<and> logins (snd (snd (Init ext0 0 (s_with ticket0) w0))) = 1
   \<and> hash (fst (snd (Init ext0 0 (s_with ticket0) w0))) = replicate 32 7
   \<and> hasTicket (fst (snd (Init ext0 0 (s_with ticket0) w0)))
   \<and> ticket (fst (snd (Init ext0 0 (s_with ticket0) w0))) = Some ticket1"
  using Init_rerun [of ext0 0 "s_with ticket0" w0]
  by (simp add: world_defs call_defs op_defs)

text \<open>
  A successful \<open>Init\<close> at clock reading 1700000000000000000 on a session started at
  1600000000000000000: the clock was read, and the start time is still the old one.
\<close>

theorem Init_start_time_counterexample:
  "fst (Init ext0 0 (s_with ticket0) w0) = Inr None
   \<and> started (s_with ticket0) = 1600000000000000000
   \<and> clock ext0 (ticks w0) = 1700000000000000000
   \<and> ticks (snd (snd (Init ext0 0 (s_with ticket0) w0))) = Suc (ticks w0)
   \<and> started (fst (snd (Init ext0 0 (s_with ticket0) w0))) = 1600000000000000000"
  by (simp add: world_defs call_defs op_defs)

subsection \<open>MoveTo\<close>

text \<open>
  C9: \<open>MoveTo\<close> leaves the world as it is (no exchange, no other effect) and changes
  only the session's \<open>location\<close> field: ticket, flag, base URL, session hash and start
  time are unchanged. For every location \<open>l\<close>, the envelope that the next \<open>Call\<close> hands
  to the transport carries the latitude, longitude and accuracy of \<open>l\<close>, and that
  envelope is handed over (exactly one exchange) unless signing fails to serialise.
\<close>

theorem MoveTo_local:
  "snd (MoveTo loc s w) = w
   \<and> fst (MoveTo loc s w) = s\<lparr>location := loc\<rparr>
   \<and> same_ticket s (fst (MoveTo loc s w))
   \<and> url (fst (MoveTo loc s w)) = url s
   \<and> hash (fst (MoveTo loc s w)) = hash s
   \<and> started (fst (MoveTo loc s w)) = started s
   \<and> (\<forall>e \<in> set (sent w (snd (snd (Call x reqs p (fst (MoveTo (Some l) s w))
                                        (snd (MoveTo (Some l) s w)))))).
         Latitude (ex_envelope e) = Lat l \<and> Longitude (ex_envelope e) = Lon l
         \<and> EnvelopeAccuracy (ex_envelope e) = Accuracy l)
   \<and> ((hasTicket s \<longrightarrow> (\<forall>m. snd (proto_Marshal x m) = None)) \<longrightarrow>
        length (sent w (snd (snd (Call x reqs p (fst (MoveTo (Some l) s w))
                                     (snd (MoveTo (Some l) s w)))))) = 1)"
proof -
  let ?s = "s\<lparr>location := Some l\<rparr>"
  note c = triple [of "Call x reqs p ?s w"]
  have env: "Latitude (ex_envelope e) = Lat l \<and> Longitude (ex_envelope e) = Lon l
         \<and> EnvelopeAccuracy (ex_envelope e) = Accuracy l"
    if "e \<in> set (sent w (snd (snd (Call x reqs p ?s w))))" for e
  proof -
    from Call_exchanges [OF c] that
    have "exchanges (snd (snd (Call x reqs p ?s w))) = exchanges w @ [e]"
      by (auto simp add: sent_def)
    from Call_exchange [OF c this] show ?thesis by simp
  qed
  have one: "length (sent w (snd (snd (Call x reqs p ?s w)))) = 1"
    if "hasTicket s \<longrightarrow> (\<forall>m. snd (proto_Marshal x m) = None)"
    using Call_dispatches [of ?s x reqs p w] that by (auto simp add: sent_def)
  from env one show ?thesis
    by (simp add: MoveTo_def same_ticket_def)
qed

theorem MoveTo_local_witness:
  "\<not> hasTicket s0 \<and> location s0 = Some loc0
   \<and> snd (MoveTo (Some loc1) s0 w0) = w0
   \<and> map (\<lambda>e. (Latitude (ex_envelope e), Longitude (ex_envelope e),
                 EnvelopeAccuracy (ex_envelope e)))
        (sent w0 (snd (snd (Call ext0 [] 0 (fst (MoveTo (Some loc1) s0 w0))
                              (snd (MoveTo (Some loc1) s0 w0))))))
       = [(Lat loc1, Lon loc1, Accuracy loc1)]"
  using MoveTo_local [of "Some loc1" s0 w0 ext0 "[]" 0 loc1]
  by (simp add: world_defs call_defs op_defs)

subsection \<open>The proxy of the challenge calls\<close>

text \<open>The exchanges of \<open>CheckChallenge\<close> and \<open>SolveCaptcha\<close> are those of their one \<open>Call\<close>.\<close>

lemma CheckChallenge_sent:
  "sent w (snd (snd (CheckChallenge x s w))) =
     sent w (snd (snd (Call x [\<lparr>RequestType = CHECK_CHALLENGE, RequestMessage = []\<rparr>] (- 1) s w)))"
  by (simp add: CheckChallenge_def Let_def split: op_splits)

lemma SolveCaptcha_sent:
  "proto_Marshal x (VerifyChallengeMessage solution) = (m, None) \<Longrightarrow>
   sent w (snd (snd (SolveCaptcha x solution s w))) =
     sent w (snd (snd (Call x [\<lparr>RequestType = VERIFY_CHALLENGE, RequestMessage = m\<rparr>] (- 1) s w)))"
  by (simp add: SolveCaptcha_def Let_def split: op_splits)

text \<open>
  C10: \<open>CheckChallenge\<close> and \<open>SolveCaptcha\<close> take no proxy selector, and every exchange
  they make (at most one each) is dispatched with the proxy selector \<open>-1\<close>; when the
  location is set and serialisation succeeds each makes exactly one such exchange.
\<close>

theorem challenge_calls_proxy:
  "(\<forall>e \<in> set (sent w (snd (snd (CheckChallenge x s w)))). ex_proxy e = - 1)
   \<and> (\<forall>e \<in> set (sent w (snd (snd (SolveCaptcha x solution s w)))). ex_proxy e = - 1)
   \<and> length (sent w (snd (snd (CheckChallenge x s w)))) \<le> 1
   \<and> length (sent w (snd (snd (SolveCaptcha x solution s w)))) \<le> 1
   \<and> (location s \<noteq> None \<and> (\<forall>m. snd (proto_Marshal x m) = None) \<longrightarrow>
        map ex_proxy (sent w (snd (snd (CheckChallenge x s w)))) = [- 1]
        \<and> map ex_proxy (sent w (snd (snd (SolveCaptcha x solution s w)))) = [- 1])"
proof -
  note cc = CheckChallenge_effect [OF triple [of "CheckChallenge x s w"]]
  note sc = SolveCaptcha_effect [OF triple [of "SolveCaptcha x solution s w"]]
  have one: "map ex_proxy (sent w (snd (snd (CheckChallenge x s w)))) = [- 1]
        \<and> map ex_proxy (sent w (snd (snd (SolveCaptcha x solution s w)))) = [- 1]"
    if l: "location s \<noteq> None" and m: "\<forall>m. snd (proto_Marshal x m) = None"
  proof -
    have d: "length (sent w (snd (snd (Call x reqs (- 1) s w)))) = 1" for reqs
      using Call_dispatches [of s x reqs "- 1" w] l m by (auto simp add: sent_def)
    obtain b where b: "proto_Marshal x (VerifyChallengeMessage solution) = (b, None)"
      using m by (metis prod.collapse)
    from d [of "[\<lparr>RequestType = CHECK_CHALLENGE, RequestMessage = []\<rparr>]"]
    have "length (sent w (snd (snd (CheckChallenge x s w)))) = 1"
      by (simp only: CheckChallenge_sent)
    moreover from d [of "[\<lparr>RequestType = VERIFY_CHALLENGE, RequestMessage = b\<rparr>]"]
    have "length (sent w (snd (snd (SolveCaptcha x solution s w)))) = 1"
      by (simp only: SolveCaptcha_sent [OF b])
    ultimately show ?thesis using cc sc by auto
  qed
  from cc sc one show ?thesis by auto
qed

theorem challenge_calls_proxy_witness:
  "location s0 \<noteq> None \<and> (\<forall>m. snd (proto_Marshal ext0 m) = None)
   \<and> map ex_proxy (sent w0 (snd (snd (CheckChallenge ext0 s0 w0)))) = [- 1]
   \<and> map ex_proxy (sent w0 (snd (snd (SolveCaptcha ext0 ''token'' s0 w0)))) = [- 1]"
  using challenge_calls_proxy [of w0 ext0 s0 "''token''"]
  by (simp add: world_defs)

end
